theory Spec2Isabelle
  imports Complex_Main "HOL-Library.Multiset"
begin

section \<open>The player registry (src/src/playerList.ts)\<close>

text \<open>
  A cached profile, with the fields of Prisma's \<open>User\<close> that the sources read
  (\<open>id\<close>, \<open>username\<close>, \<open>xp\<close>, \<open>level\<close>, \<open>balance\<close>, \<open>streak\<close>,
  \<open>createdAt\<close>, \<open>lastClaimedDaily\<close>). Dates are milliseconds since the epoch.
\<close>

record User =
  user_id :: int
  username :: string
  xp :: int
  level :: int
  balance :: int
  streak :: int
  createdAt :: int
  lastClaimedDaily :: "int option"

text \<open>
  A JavaScript \<open>Map\<close> with string keys: the entries in insertion order, every key
  once. \<open>set\<close> on a key that is present replaces the value where the entry stands,
  \<open>set\<close> on a new key appends, \<open>delete\<close> says whether an entry was removed.
\<close>

type_synonym 'v jsmap = "(string \<times> 'v) list"

fun Map_set :: "string \<Rightarrow> 'v \<Rightarrow> 'v jsmap \<Rightarrow> 'v jsmap" where
  "Map_set k v [] = [(k, v)]"
| "Map_set k v ((k', v') # m) =
     (if k = k' then (k, v) # m else (k', v') # Map_set k v m)"

fun Map_delete :: "string \<Rightarrow> 'v jsmap \<Rightarrow> 'v jsmap" where
  "Map_delete k [] = []"
| "Map_delete k ((k', v') # m) = (if k = k' then m else (k', v') # Map_delete k m)"

definition Map_get :: "string \<Rightarrow> 'v jsmap \<Rightarrow> 'v option" where
  "Map_get k m = map_of m k"

definition Map_has :: "string \<Rightarrow> 'v jsmap \<Rightarrow> bool" where
  "Map_has k m = (map_of m k \<noteq> None)"

definition Map_values :: "'v jsmap \<Rightarrow> 'v list" where
  "Map_values m = map snd m"

text \<open>
  The class keeps its players in one \<open>Map\<close> object, held by the static field
  \<open>players\<close>. \<open>getPlayerList\<close> hands a \<open>Map\<close> object to the caller, who may
  mutate it, so \<open>Map\<close> objects live in an explicit store: \<open>objects\<close> lists them by
  address, \<open>players\<close> is the address the static field holds, and \<open>new Map(...)\<close>
  allocates the next address.
\<close>

record PlayerList =
  objects :: "User jsmap list"
  players :: nat

definition deref :: "PlayerList \<Rightarrow> nat \<Rightarrow> User jsmap" where
  "deref r a = (if a < length (objects r) then objects r ! a else [])"

definition assign :: "nat \<Rightarrow> User jsmap \<Rightarrow> PlayerList \<Rightarrow> PlayerList" where
  "assign a m r = r\<lparr>objects := (objects r)[a := m]\<rparr>"

text \<open>\<open>private static players = new Map<string, User>()\<close>\<close>

definition PlayerList_init :: PlayerList where
  "PlayerList_init = \<lparr>objects = [[]], players = 0\<rparr>"

text \<open>The static field points at an allocated \<open>Map\<close>.\<close>

definition allocated :: "PlayerList \<Rightarrow> bool" where
  "allocated r = (players r < length (objects r))"

subsection \<open>Getters\<close>

text \<open>\<open>return this.players.get(steamId) || null\<close>: \<open>None\<close> is \<open>null\<close>; a \<open>User\<close>
  object is never falsy.\<close>

definition getPlayerBySteamID :: "PlayerList \<Rightarrow> string \<Rightarrow> User option" where
  "getPlayerBySteamID r steamId = Map_get steamId (deref r (players r))"

text \<open>\<open>return [...this.players.values()]\<close>\<close>

definition getAllPlayers :: "PlayerList \<Rightarrow> User list" where
  "getAllPlayers r = Map_values (deref r (players r))"

text \<open>
  \<open>getPlayerList\<close> as the class with \<open>addPlayer\<close> has it (lines 100-102), and as
  the class of src/unnamed/part_000 has it: \<open>return new Map(this.players)\<close>. The copy constructor
  reads the entries in order into a new object; the result is the new address
  and the store with the new object.
\<close>

definition getPlayerList :: "PlayerList \<Rightarrow> nat \<times> PlayerList" where
  "getPlayerList r =
     (length (objects r), r\<lparr>objects := objects r @ [deref r (players r)]\<rparr>)"

text \<open>
  \<open>getPlayerList\<close> as the first class of the file has it (lines 44-46):
  \<open>return this.players\<close>, the address the static field holds.
\<close>

definition getPlayerList_v1 :: "PlayerList \<Rightarrow> nat \<times> PlayerList" where
  "getPlayerList_v1 r = (players r, r)"

text \<open>
  \<open>getPlayerByUsername\<close>: the first player, in the map's order, whose lowercased
  name is the lowercased argument. \<open>toLowerCase\<close> is JavaScript's (Unicode) and
  is taken as the parameter \<open>lower\<close>.
\<close>

definition getPlayerByUsername ::
  "(string \<Rightarrow> string) \<Rightarrow> PlayerList \<Rightarrow> string \<Rightarrow> User option" where
  "getPlayerByUsername lower r name =
     find (\<lambda>user. lower (username user) = lower name) (Map_values (deref r (players r)))"

subsection \<open>Modifiers\<close>

text \<open>\<open>this.players.set(steamId, user)\<close>\<close>

definition addPlayer :: "string \<Rightarrow> User \<Rightarrow> PlayerList \<Rightarrow> PlayerList" where
  "addPlayer steamId user r =
     assign (players r) (Map_set steamId user (deref r (players r))) r"

text \<open>
  \<open>updatePlayerBySteamID\<close>: \<open>{ ...existingPlayer, ...updates }\<close> is the existing
  object overwritten with the fields \<open>updates\<close> holds; \<open>updates\<close> is that
  overwriting, a function on \<open>User\<close>.
\<close>

definition updatePlayerBySteamID ::
  "string \<Rightarrow> (User \<Rightarrow> User) \<Rightarrow> PlayerList \<Rightarrow> bool \<times> PlayerList" where
  "updatePlayerBySteamID steamId updates r =
     (case Map_get steamId (deref r (players r)) of
        None \<Rightarrow> (False, r)
      | Some existingPlayer \<Rightarrow>
          (True, assign (players r)
                   (Map_set steamId (updates existingPlayer) (deref r (players r))) r))"

text \<open>\<open>return this.players.delete(steamId)\<close>\<close>

definition removePlayerBySteamID :: "string \<Rightarrow> PlayerList \<Rightarrow> bool \<times> PlayerList" where
  "removePlayerBySteamID steamId r =
     (Map_has steamId (deref r (players r)),
      assign (players r) (Map_delete steamId (deref r (players r))) r)"

text \<open>\<open>removePlayerByUsername\<close>: deletes the first entry whose lowercased name
  matches, and says whether there was one.\<close>

definition removePlayerByUsername ::
  "(string \<Rightarrow> string) \<Rightarrow> string \<Rightarrow> PlayerList \<Rightarrow> bool \<times> PlayerList" where
  "removePlayerByUsername lower name r =
     (case find (\<lambda>(steamId, user). lower (username user) = lower name)
             (deref r (players r)) of
        None \<Rightarrow> (False, r)
      | Some (steamId, user) \<Rightarrow>
          (True, assign (players r) (Map_delete steamId (deref r (players r))) r))"

subsection \<open>What a caller can do to a map it holds\<close>

datatype map_op = Set string User | Delete string | Clear

fun run_op :: "map_op \<Rightarrow> User jsmap \<Rightarrow> User jsmap" where
  "run_op (Set k v) m = Map_set k v m"
| "run_op (Delete k) m = Map_delete k m"
| "run_op Clear m = []"

text \<open>The caller applies an operation to the \<open>Map\<close> object at address \<open>a\<close>.\<close>

definition mutate :: "nat \<Rightarrow> PlayerList \<Rightarrow> map_op \<Rightarrow> PlayerList" where
  "mutate a r op = assign a (run_op op (deref r a)) r"

definition mutate_all :: "nat \<Rightarrow> map_op list \<Rightarrow> PlayerList \<Rightarrow> PlayerList" where
  "mutate_all a ops r = foldl (mutate a) r ops"

text \<open>The registry's own state: the address in the static field and the map there.\<close>

definition registry_state :: "PlayerList \<Rightarrow> nat \<times> User jsmap" where
  "registry_state r = (players r, deref r (players r))"

section \<open>The role multiplier (src/src/commands/profile.ts, getMultiplierInfo)\<close>

text \<open>
  A member's roles are the entries of \<open>member.roles.cache\<close> in iteration order, each
  with its \<open>id\<close> and \<open>name\<close>. \<open>Leveling.roleMultipliers\<close> (a \<open>Map\<close> from role id
  to a number, not among the sources) is the parameter \<open>roleMultipliers\<close>. The
  function only compares the factors and copies them, so a factor is a \<open>real\<close>:
  comparison and \<open>Math.max\<close> of doubles that are not \<open>NaN\<close> are exact.
\<close>

record Role =
  role_id :: string
  role_name :: string

type_synonym GuildMember = "Role list"

text \<open>An element \<open>{ name, multiplier }\<close> of the result's \<open>roles\<close>.\<close>

record RoleBoost =
  boost_name :: string
  boost_multiplier :: real

record MultiplierInfo =
  multiplier :: real
  roles :: "RoleBoost list"

text \<open>
  The body of \<open>member.roles.cache.forEach\<close>, run over the roles with the array
  pushed so far and \<open>highestMultiplier\<close>. \<open>multiplier && multiplier > 1\<close>: a
  role with no entry gives \<open>undefined\<close>, and \<open>0\<close> is falsy.
\<close>

fun forEach_role ::
  "(string \<rightharpoonup> real) \<Rightarrow> Role list \<Rightarrow> RoleBoost list \<times> real \<Rightarrow> RoleBoost list \<times> real" where
  "forEach_role roleMultipliers [] acc = acc"
| "forEach_role roleMultipliers (role # rest) (pushed, highestMultiplier) =
     (case roleMultipliers (role_id role) of
        None \<Rightarrow> forEach_role roleMultipliers rest (pushed, highestMultiplier)
      | Some m \<Rightarrow>
          if m \<noteq> 0 \<and> m > 1
          then forEach_role roleMultipliers rest
                 (pushed @ [\<lparr>boost_name = role_name role, boost_multiplier = m\<rparr>],
                  max highestMultiplier m)
          else forEach_role roleMultipliers rest (pushed, highestMultiplier))"

text \<open>
  \<open>roles.sort((a, b) => b.multiplier - a.multiplier)\<close>: \<open>Array.prototype.sort\<close> is
  stable, and so is \<open>sort_key\<close>; descending by factor is ascending by its negation.
  A \<open>null\<close> member is \<open>None\<close>.
\<close>

definition getMultiplierInfo ::
  "(string \<rightharpoonup> real) \<Rightarrow> GuildMember option \<Rightarrow> MultiplierInfo" where
  "getMultiplierInfo roleMultipliers member =
     (case member of
        None \<Rightarrow> \<lparr>multiplier = 1, roles = []\<rparr>
      | Some cache \<Rightarrow>
          (case forEach_role roleMultipliers cache ([], 1) of
             (pushed, highestMultiplier) \<Rightarrow>
               \<lparr>multiplier = highestMultiplier,
                roles = sort_key (\<lambda>a. - boost_multiplier a) pushed\<rparr>))"

text \<open>
  In the spec's words: the contributing roles are the roles whose factor is
  greater than 1 (here in the order of the member's role cache).
\<close>

fun contributing_roles :: "(string \<rightharpoonup> real) \<Rightarrow> Role list \<Rightarrow> RoleBoost list" where
  "contributing_roles rm [] = []"
| "contributing_roles rm (role # rest) =
     (case rm (role_id role) of
        None \<Rightarrow> contributing_roles rm rest
      | Some m \<Rightarrow>
          if m > 1
          then \<lparr>boost_name = role_name role, boost_multiplier = m\<rparr> # contributing_roles rm rest
          else contributing_roles rm rest)"

section \<open>Values of the dispatch layer (src/src/services/ws.ts)\<close>

text \<open>
  A thrown value: an \<open>Error\<close> object with its \<open>name\<close> and \<open>message\<close>.
\<close>

datatype fault = Fault (fault_name: string) (fault_message: string)

text \<open>The template \<open>${error}\<close>: \<open>Error.prototype.toString\<close>.\<close>

definition error_to_string :: "fault \<Rightarrow> string" where
  "error_to_string e =
     (if fault_name e = [] then fault_message e
      else if fault_message e = [] then fault_name e
      else fault_name e @ '': '' @ fault_message e)"

text \<open>A number in a template, for the natural numbers (\<open>result.length\<close>).\<close>

definition digit_char :: "nat \<Rightarrow> char" where
  "digit_char d = ''0123456789'' ! d"

function string_of_nat :: "nat \<Rightarrow> string" where
  "string_of_nat n =
     (if n < 10 then [digit_char n] else string_of_nat (n div 10) @ [digit_char (n mod 10)])"
  by pat_completeness auto
termination
  by (relation "measure id") auto

declare string_of_nat.simps [simp del]

text \<open>
  \<open>interface WebsocketMessage\<close>. \<open>content?: string | null\<close> is absent, \<open>null\<close> or a
  string; the other optional fields are absent or a string.
\<close>

datatype content_field = Absent | Null | Text string

record WebsocketMessage =
  type :: string
  steamId :: "string option"
  token :: "string option"
  content :: content_field
  correlationId :: "string option"

text \<open>Truthiness of an optional string and of \<open>content\<close>: absent, \<open>null\<close> and
  the empty string are falsy. \<open>truthy v\<close> is the string when \<open>v\<close> is truthy.\<close>

definition truthy :: "string option \<Rightarrow> string option" where
  "truthy v = (case v of None \<Rightarrow> None | Some s \<Rightarrow> if s = [] then None else Some s)"

fun truthy_content :: "content_field \<Rightarrow> bool" where
  "truthy_content (Text s) = (s \<noteq> [])"
| "truthy_content Absent = False"
| "truthy_content Null = False"

text \<open>
  A JSON object as the peer reads it: its keys and their values. The frames the
  server sends are \<open>JSON.stringify\<close> of such objects.
\<close>

datatype jval = JString string | JBoolean bool | JNull

type_synonym jobject = "string \<rightharpoonup> jval"

text \<open>
  What a call of \<open>messageHandlers[data.type](data)\<close> can return: the handlers
  return an object literal or fall off their end (\<open>undefined\<close>); the members
  inherited from \<open>Object.prototype\<close> return a boolean, a string, an object or the
  handler table itself.
\<close>

datatype jsvalue = Undefined | Boolean bool | String string | Object jobject | HandlerTable

text \<open>
  The properties \<open>...result\<close> copies into the response, as they appear in the frame:
  \<open>undefined\<close> and a boolean have none, a string has its characters under their
  indices, and the handler table has only functions, which \<open>JSON.stringify\<close> omits.
\<close>

definition characters :: "string \<Rightarrow> jobject" where
  "characters s = map_of (zip (map string_of_nat [0..<length s]) (map (\<lambda>c. JString [c]) s))"

fun spread :: "jsvalue \<Rightarrow> jobject" where
  "spread Undefined = Map.empty"
| "spread (Boolean b) = Map.empty"
| "spread (String s) = characters s"
| "spread (Object props) = props"
| "spread HandlerTable = Map.empty"

text \<open>The message as an object (its own properties), for \<open>Object(data)\<close>.\<close>

definition optional :: "string \<Rightarrow> string option \<Rightarrow> jobject" where
  "optional k v = (case v of None \<Rightarrow> Map.empty | Some s \<Rightarrow> [k \<mapsto> JString s])"

definition message_object :: "WebsocketMessage \<Rightarrow> jobject" where
  "message_object data =
     [''type'' \<mapsto> JString (type data)] ++ optional ''steamId'' (steamId data) ++
     optional ''token'' (token data) ++
     (case content data of Absent \<Rightarrow> Map.empty | Null \<Rightarrow> [''content'' \<mapsto> JNull]
      | Text s \<Rightarrow> [''content'' \<mapsto> JString s]) ++
     optional ''correlationId'' (correlationId data)"

subsection \<open>The collaborators\<close>

text \<open>
  What the process does besides answering: the lines it logs, the request to the
  token endpoint, the call of the merge procedure, the direct message, and a
  promise that rejects with nothing awaiting it.
\<close>

datatype event =
    Log_AuthenticationFailed
  | Log_Received string string
  | Log_SentResponse string string
  | Log_Unhandled string
  | Log_ErrorProcessing string
  | Console string
  | Console_error string fault
  | Fetch_token string string
  | Call_mergeUsers int int
  | Send_direct_message string
  | Unhandled_rejection fault

text \<open>\<open>interface AuthValidationResponse\<close>, and the part of \<open>fetch\<close>'s response that
  \<open>authenticate\<close> reads: \<open>response.ok\<close> and \<open>response.json()\<close>, which can throw.
  The body is \<open>None\<close> when it is a falsy JSON value (\<open>null\<close>, say), which the
  callback's \<open>!state\<close> takes for a refusal; the \<open>status\<close> field is never read.\<close>

record AuthValidationResponse =
  auth_steamId :: int
  status :: string

record http_response =
  ok :: bool
  json :: "fault + AuthValidationResponse option"

datatype platform = STEAM | DISCORD

record Account =
  platform :: platform
  platformId :: string
  account_username :: string

text \<open>The \<open>data\<close> of \<open>prisma.user.create\<close>: \<open>username\<close>, the accounts to create,
  \<open>xp\<close> and \<open>level\<close>.\<close>

record user_create_data =
  create_username :: string
  create_accounts :: "Account list"
  create_xp :: int
  create_level :: int

text \<open>What \<open>mergeUsers\<close> returns: \<open>{ success, message }\<close>.\<close>

record merge_response =
  success :: bool
  message :: string

text \<open>
  The modules the file imports that are not among the sources, and the network,
  are parameters: the token endpoint (\<open>fetch\<close>), the store (\<open>prisma\<close>, with its
  state \<open>'db\<close>), \<open>mergeUsers\<close>, \<open>Leveling.giveXP\<close>, the Discord client's
  \<open>users.fetch\<close>, and \<open>JSON.stringify\<close> of a profile. Each can throw (\<open>Inl\<close>).
  A query reads the store; \<open>create\<close> also returns the store it leaves;
  \<open>mergeUsers\<close> and \<open>Leveling.giveXP\<close> may write the store and the player
  registry, and return both as they leave them.
  \<^item> \<open>account_findUnique db platform platformId\<close>: the account with that key and
    its \<open>user\<close>, if any.
  \<^item> \<open>user_findMany db steamId discordId\<close>: the users with a Steam account
    \<open>steamId\<close> or a Discord account \<open>discordId\<close>, each with its accounts.
  \<^item> \<open>user_findFirst db steamId\<close>: a user with an account whose id is \<open>steamId\<close>.
  \<^item> \<open>Leveling_giveXP db players userId xpAmount\<close>: called with the first two pieces
    of the content (\<open>xpAmount\<close> is \<open>None\<close> when there is one piece only). The call
    is not awaited: it throws, or returns a value that the handler only tests.
    What it writes is taken as written when it returns.
\<close>

text \<open>
  What a call that is not awaited returns: a falsy value, a truthy value that is
  no promise, or (the call of an \<open>async\<close> function, as \<open>daily.ts\<close> has
  \<open>Leveling.giveXP\<close>) a promise. A promise is truthy whatever becomes of it; it
  is fulfilled (\<open>None\<close>) or rejected with a fault, and nothing handles the
  rejection.
\<close>

datatype returned = Falsy | Truthy | Promise "fault option"

record 'db env =
  fetch_token :: "string \<Rightarrow> string \<Rightarrow> fault + http_response"
  account_findUnique :: "'db \<Rightarrow> platform \<Rightarrow> string \<Rightarrow> fault + (Account \<times> User option) option"
  user_create :: "'db \<Rightarrow> user_create_data \<Rightarrow> (fault + User) \<times> 'db"
  user_findMany :: "'db \<Rightarrow> string \<Rightarrow> string \<Rightarrow> fault + (User \<times> Account list) list"
  user_findFirst :: "'db \<Rightarrow> string \<Rightarrow> fault + User option"
  mergeUsers ::
    "'db \<Rightarrow> PlayerList \<Rightarrow> int \<Rightarrow> int \<Rightarrow> (fault + merge_response) \<times> 'db \<times> PlayerList"
  Leveling_giveXP ::
    "'db \<Rightarrow> PlayerList \<Rightarrow> string \<Rightarrow> string option \<Rightarrow> (fault + returned) \<times> 'db \<times> PlayerList"
  users_fetch :: "string \<Rightarrow> fault + unit"
  JSON_stringify :: "User \<Rightarrow> string"

text \<open>
  Modelled from the spec: \<open>CodeStorage\<close> (imported from \<open>../codeStorage\<close>) is not
  among the sources. The spec has a pending link code map "a short-lived code to
  the Identity that generated it", "explicitly invalidated on successful merge".
  So the storage is a map from codes to identities, \<open>getUser\<close> looks a code up,
  and \<open>deleteCode\<close>, which the handler calls with the identity, removes the codes
  of that identity. Expiry is not modelled.
\<close>

type_synonym CodeStorage = "string \<rightharpoonup> string"

definition CodeStorage_getUser :: "CodeStorage \<Rightarrow> string \<Rightarrow> string option" where
  "CodeStorage_getUser storage code = storage code"

definition CodeStorage_deleteCode :: "string \<Rightarrow> CodeStorage \<Rightarrow> CodeStorage" where
  "CodeStorage_deleteCode userId storage =
     (\<lambda>code. if storage code = Some userId then None else storage code)"

text \<open>The state of the process, and a connection: the frames sent on it.\<close>

record 'db world =
  db :: 'db
  codes :: CodeStorage
  registry :: PlayerList
  trace :: "event list"

record connection =
  sent :: "jobject list"
  is_open :: bool

definition emit :: "event \<Rightarrow> 'db world \<Rightarrow> 'db world" where
  "emit e w = w\<lparr>trace := trace w @ [e]\<rparr>"

definition ws_send :: "jobject \<Rightarrow> connection \<Rightarrow> connection" where
  "ws_send frame ws = ws\<lparr>sent := sent ws @ [frame]\<rparr>"

type_synonym 'db outcome = "'db world \<times> (fault + jsvalue)"
type_synonym 'db handler = "'db world \<Rightarrow> WebsocketMessage \<Rightarrow> 'db outcome"

subsection \<open>The handlers\<close>

text \<open>\<open>!data.content || !data.steamId\<close> is false: the content and the identity.\<close>

definition content_and_steamId :: "WebsocketMessage \<Rightarrow> (string \<times> string) option" where
  "content_and_steamId data =
     (case content data of
        Text c \<Rightarrow>
          (if c = [] then None
           else (case steamId data of
                   None \<Rightarrow> None
                 | Some s \<Rightarrow> if s = [] then None else Some (c, s)))
      | Absent \<Rightarrow> None
      | Null \<Rightarrow> None)"

definition reply :: "bool \<Rightarrow> string \<Rightarrow> jsvalue" where
  "reply ok_flag text = Object [''success'' \<mapsto> JBoolean ok_flag, ''content'' \<mapsto> JString text]"

definition reply_error :: "string \<Rightarrow> jsvalue" where
  "reply_error text = Object [''success'' \<mapsto> JBoolean False, ''error'' \<mapsto> JString text]"

definition malformed :: jsvalue where
  "malformed = reply False ''Malformed content received.''"

text \<open>\<open>!account || !account.user\<close> is false: the user of the account found.\<close>

definition account_user :: "(Account \<times> User option) option \<Rightarrow> User option" where
  "account_user found = (case found of None \<Rightarrow> None | Some (account, user) \<Rightarrow> user)"

definition getUser_steam :: "'db env \<Rightarrow> 'db handler" where
  "getUser_steam env w data =
     (case content_and_steamId data of
        None \<Rightarrow> (w, Inr malformed)
      | Some (name, steam) \<Rightarrow>
          (case account_findUnique env (db w) STEAM steam of
             Inl error \<Rightarrow> (w, Inr (reply_error (''Failed to get user: '' @ error_to_string error)))
           | Inr found \<Rightarrow>
               (case account_user found of
                  Some user \<Rightarrow> (w, Inr (reply True (JSON_stringify env user)))
                | None \<Rightarrow>
                    (case user_create env (db w)
                            \<lparr>create_username = name,
                             create_accounts =
                               [\<lparr>platform = STEAM, platformId = steam, account_username = name\<rparr>],
                             create_xp = 0, create_level = 1\<rparr> of
                       (Inl error, db') \<Rightarrow>
                         (w\<lparr>db := db'\<rparr>,
                          Inr (reply_error (''Failed to get user: '' @ error_to_string error)))
                     | (Inr user, db') \<Rightarrow>
                         (w\<lparr>db := db'\<rparr>, Inr (reply True (JSON_stringify env user)))))))"

text \<open>
  \<open>result_discord.accounts.find(account => account.platform === 'DISCORD')?.platformId\<close>
\<close>

definition discord_platformId :: "Account list \<Rightarrow> string option" where
  "discord_platformId accounts =
     map_option platformId (find (\<lambda>account. platform account = DISCORD) accounts)"

text \<open>The confirmation after a successful merge: \<open>client.users.fetch\<close>, then
  \<open>discordUser.send\<close> (not awaited); a fault of the fetch is logged.\<close>

definition notify :: "'db env \<Rightarrow> string option \<Rightarrow> 'db world \<Rightarrow> 'db world" where
  "notify env discordUserId w =
     (case discordUserId of
        None \<Rightarrow> w
      | Some user \<Rightarrow>
          if user = [] then w
          else (case users_fetch env user of
                  Inl error \<Rightarrow> emit (Console_error ''Error sending DM confirmation message:'' error) w
                | Inr discordUser \<Rightarrow> emit (Send_direct_message user) w))"

definition cannot_merge :: "nat \<Rightarrow> string" where
  "cannot_merge n =
     ''Cannot merge when there are more or less than 2 users in the database. Found '' @
     string_of_nat n @ '' user(s).''"

definition invalid_code :: "'db world \<Rightarrow> 'db outcome" where
  "invalid_code w =
     (emit (Console ''Invalid code entered!'') w, Inr (reply False ''Invalid code entered.''))"

text \<open>
  \<open>linkCode_steam\<close> has no \<open>try\<close>: a fault of the query or of \<open>mergeUsers\<close> leaves the
  handler. \<open>!discordId\<close> holds for no identity and for the empty one.
\<close>

definition linkCode_steam :: "'db env \<Rightarrow> 'db handler" where
  "linkCode_steam env w data =
     (case content_and_steamId data of
        None \<Rightarrow> (w, Inr malformed)
      | Some (code, steam) \<Rightarrow>
          (case CodeStorage_getUser (codes w) code of
             None \<Rightarrow> invalid_code w
           | Some discordId \<Rightarrow>
               if discordId = [] then invalid_code w
               else
                 (case user_findMany env (db w) steam discordId of
                    Inl error \<Rightarrow> (w, Inl error)
                  | Inr result \<Rightarrow>
                      if length result \<noteq> 2
                      then (emit (Console (cannot_merge (length result))) w,
                            Inr (reply False (cannot_merge (length result))))
                      else
                        (let result_steam = result ! 0;
                             result_discord = result ! 1;
                             w1 = emit (Call_mergeUsers (user_id (fst result_steam))
                                          (user_id (fst result_discord))) w
                         in (case mergeUsers env (db w) (registry w) (user_id (fst result_steam))
                                     (user_id (fst result_discord)) of
                               (Inl error, db', players') \<Rightarrow>
                                 (w1\<lparr>db := db', registry := players'\<rparr>, Inl error)
                             | (Inr response, db', players') \<Rightarrow>
                                 ((if success response
                                   then notify env (discord_platformId (snd result_discord))
                                          (w1\<lparr>db := db', registry := players',
                                              codes := CodeStorage_deleteCode discordId (codes w1)\<rparr>)
                                   else w1\<lparr>db := db', registry := players'\<rparr>),
                                  Inr (reply (success response) (message response))))))))"

text \<open>\<open>data.content.split(" ")\<close>: the first piece and the pieces after it.\<close>

fun split_on :: "char \<Rightarrow> string \<Rightarrow> string \<times> string list" where
  "split_on sep [] = ([], [])"
| "split_on sep (c # cs) =
     (case split_on sep cs of
        (piece, pieces) \<Rightarrow> if c = sep then ([], piece # pieces) else (c # piece, pieces))"

text \<open>
  \<open>giveXP\<close>: \<open>[userId, xpAmount]\<close> are the first two pieces, \<open>xpAmount\<close>
  \<open>undefined\<close> when there is one piece; \<open>${xpAmount}\<close> is then \<open>undefined\<close>.
  The value \<open>Leveling.giveXP\<close> returns is not awaited, only tested: a promise
  passes the test, so the handler answers \<open>success: true\<close>, and when the promise
  rejects the rejection is outside the handler's \<open>try\<close>: it is unhandled. (What
  the process does on an unhandled rejection is decided outside the sources; the
  trace records it.)
\<close>

definition giveXP :: "'db env \<Rightarrow> 'db handler" where
  "giveXP env w data =
     (case content_and_steamId data of
        None \<Rightarrow> (w, Inr malformed)
      | Some (text, steam) \<Rightarrow>
          (case split_on CHR '' '' text of
             (userId, pieces) \<Rightarrow>
               (let xpAmount = (case pieces of [] \<Rightarrow> None | piece # others \<Rightarrow> Some piece) in
                (case Leveling_giveXP env (db w) (registry w) userId xpAmount of
                   (Inl error, db', players') \<Rightarrow>
                     (w\<lparr>db := db', registry := players'\<rparr>,
                      Inr (reply_error (''Failed to give XP: '' @ error_to_string error)))
                 | (Inr updatedUser, db', players') \<Rightarrow>
                     (case updatedUser of
                        Falsy \<Rightarrow>
                          (w\<lparr>db := db', registry := players'\<rparr>,
                           Inr (reply False (''Could not find user by ID '' @ userId)))
                      | Truthy \<Rightarrow>
                          (w\<lparr>db := db', registry := players'\<rparr>,
                           Inr (reply True
                                  (''Gave '' @ (case xpAmount of None \<Rightarrow> ''undefined'' | Some x \<Rightarrow> x) @
                                   '' XP to user '' @ userId)))
                      | Promise settled \<Rightarrow>
                          ((case settled of
                              None \<Rightarrow> w\<lparr>db := db', registry := players'\<rparr>
                            | Some rejection \<Rightarrow>
                                emit (Unhandled_rejection rejection)
                                  (w\<lparr>db := db', registry := players'\<rparr>)),
                           Inr (reply True
                                  (''Gave '' @ (case xpAmount of None \<Rightarrow> ''undefined'' | Some x \<Rightarrow> x) @
                                   '' XP to user '' @ userId))))))))"

text \<open>
  \<open>onJoin\<close>: when the user is found the handler adds the player and reaches the
  last line of its body with no \<open>return\<close>, so the call's value is \<open>undefined\<close>.
  \<open>console.error(err)\<close> in the \<open>catch\<close>.
\<close>

definition onJoin :: "'db env \<Rightarrow> 'db handler" where
  "onJoin env w data =
     (case content_and_steamId data of
        None \<Rightarrow> (w, Inr malformed)
      | Some (text, steam) \<Rightarrow>
          (case user_findFirst env (db w) steam of
             Inl err \<Rightarrow>
               (emit (Console_error [] err) w,
                Inr (reply False ''An error occurred while processing the join request.''))
           | Inr None \<Rightarrow> (w, Inr (reply False ''No user profile found!''))
           | Inr (Some user) \<Rightarrow>
               (w\<lparr>registry := addPlayer steam user (registry w)\<rparr>, Inr Undefined)))"

definition onLeave :: "'db env \<Rightarrow> 'db handler" where
  "onLeave env w data =
     (case content_and_steamId data of
        None \<Rightarrow> (w, Inr malformed)
      | Some (text, steam) \<Rightarrow>
          (case user_findFirst env (db w) steam of
             Inl err \<Rightarrow>
               (emit (Console_error [] err) w,
                Inr (reply False ''An error occurred while processing the leave request.''))
           | Inr None \<Rightarrow> (w, Inr (reply False ''No user profile found to remove!''))
           | Inr (Some user) \<Rightarrow>
               (w\<lparr>registry := snd (removePlayerBySteamID steam (registry w))\<rparr>,
                Inr (reply True ''Player successfully removed from the list.''))))"

subsection \<open>The handler table\<close>

text \<open>
  \<open>messageHandlers\<close> is an object literal, so \<open>messageHandlers[data.type]\<close> finds
  its five own properties and, through the prototype chain, the members of
  \<open>Object.prototype\<close>. Called with the message as \<open>messageHandlers[name](data)\<close>:
  \<^item> \<open>constructor\<close> is \<open>Object\<close>, and \<open>Object(data)\<close> is \<open>data\<close>;
  \<^item> \<open>toString\<close> and \<open>toLocaleString\<close> return \<open>[object Object]\<close>;
  \<^item> \<open>valueOf\<close> returns the table;
  \<^item> \<open>hasOwnProperty\<close>, \<open>isPrototypeOf\<close> and \<open>propertyIsEnumerable\<close> return \<open>false\<close>;
  \<^item> \<open>__lookupGetter__\<close> and \<open>__lookupSetter__\<close> return \<open>undefined\<close>;
  \<^item> \<open>__defineGetter__\<close> and \<open>__defineSetter__\<close> throw a \<open>TypeError\<close> (no function is
    passed), and \<open>__proto__\<close> is an object, truthy and not callable: a \<open>TypeError\<close>.
\<close>

definition Object_prototype :: "string \<Rightarrow> 'db handler option" where
  "Object_prototype name =
     (if name = ''constructor'' then Some (\<lambda>w data. (w, Inr (Object (message_object data))))
      else if name = ''toString'' \<or> name = ''toLocaleString''
        then Some (\<lambda>w data. (w, Inr (String ''[object Object]'')))
      else if name = ''valueOf'' then Some (\<lambda>w data. (w, Inr HandlerTable))
      else if name = ''hasOwnProperty'' \<or> name = ''isPrototypeOf'' \<or>
              name = ''propertyIsEnumerable''
        then Some (\<lambda>w data. (w, Inr (Boolean False)))
      else if name = ''__lookupGetter__'' \<or> name = ''__lookupSetter__''
        then Some (\<lambda>w data. (w, Inr Undefined))
      else if name = ''__defineGetter__'' \<or> name = ''__defineSetter__''
        then Some (\<lambda>w data. (w, Inl (Fault ''TypeError''
                     (''Object.prototype.'' @ name @ '': Expecting function''))))
      else if name = ''__proto__''
        then Some (\<lambda>w data. (w, Inl (Fault ''TypeError''
                     ''messageHandlers[data.type] is not a function'')))
      else None)"

definition registered :: "string \<Rightarrow> bool" where
  "registered name =
     (name \<in> {''getUser_steam'', ''linkCode_steam'', ''giveXP'', ''onJoin'', ''onLeave''})"

definition messageHandlers :: "'db env \<Rightarrow> string \<Rightarrow> 'db handler option" where
  "messageHandlers env name =
     (if name = ''getUser_steam'' then Some (getUser_steam env)
      else if name = ''linkCode_steam'' then Some (linkCode_steam env)
      else if name = ''giveXP'' then Some (giveXP env)
      else if name = ''onJoin'' then Some (onJoin env)
      else if name = ''onLeave'' then Some (onLeave env)
      else Object_prototype name)"

subsection \<open>Authentication and dispatch\<close>

text \<open>\<open>authenticate\<close>: the request, \<open>null\<close> (\<open>None\<close>) when the response is not ok,
  else the parsed body.\<close>

definition authenticate ::
  "'db env \<Rightarrow> string \<Rightarrow> string \<Rightarrow> 'db world \<Rightarrow> 'db world \<times> (fault + AuthValidationResponse option)" where
  "authenticate env steam tok w =
     (let w1 = emit (Fetch_token steam tok) w in
      case fetch_token env steam tok of
        Inl error \<Rightarrow> (w1, Inl error)
      | Inr response \<Rightarrow>
          if \<not> ok response then (emit (Console ''HTTP response wasnt OK'') w1, Inr None)
          else (case json response of
                  Inl error \<Rightarrow> (w1, Inl error)
                | Inr authValidationResponse \<Rightarrow> (w1, Inr authValidationResponse)))"

text \<open>A text frame: \<open>JSON.parse\<close> throws, or gives the message.\<close>

datatype inbound = Unparsable fault | Parsed WebsocketMessage

text \<open>The \<open>catch\<close> of the message callback: one line logged.\<close>

definition caught :: "fault \<Rightarrow> 'db world \<Rightarrow> 'db world" where
  "caught error w = emit (Log_ErrorProcessing (fault_message error)) w"

text \<open>
  From \<open>Logging.log\<close> of the received message on: the lookup in the table \<open>table\<close>,
  the call, and the response when \<open>data.correlationId\<close> is truthy.
\<close>

definition unknown_type :: "string \<Rightarrow> string \<Rightarrow> jobject" where
  "unknown_type correlation name =
     [''type'' \<mapsto> JString ''error'', ''correlationId'' \<mapsto> JString correlation,
      ''success'' \<mapsto> JBoolean False,
      ''error'' \<mapsto> JString (''Unknown message type: '' @ name)]"

definition response :: "string \<Rightarrow> string \<Rightarrow> jsvalue \<Rightarrow> jobject" where
  "response name correlation result =
     [''type'' \<mapsto> JString (name @ ''_response''), ''correlationId'' \<mapsto> JString correlation]
     ++ spread result"

definition route ::
  "(string \<Rightarrow> 'db handler option) \<Rightarrow> WebsocketMessage \<Rightarrow> string \<Rightarrow>
   'db world \<times> connection \<Rightarrow> 'db world \<times> connection" where
  "route table data text state =
     (case state of (w0, ws) \<Rightarrow>
      let w = emit (Log_Received (type data) text) w0 in
      case (if type data = [] then None else table (type data)) of
        Some handler \<Rightarrow>
          (case handler w data of
             (w1, Inl error) \<Rightarrow> (caught error w1, ws)
           | (w1, Inr result) \<Rightarrow>
               (case truthy (correlationId data) of
                  Some correlation \<Rightarrow>
                    (emit (Log_SentResponse correlation (type data)) w1,
                     ws_send (response (type data) correlation result) ws)
                | None \<Rightarrow> (w1, ws)))
      | None \<Rightarrow>
          (let w1 = emit (Log_Unhandled (type data)) w in
           case truthy (correlationId data) of
             Some correlation \<Rightarrow> (w1, ws_send (unknown_type correlation (type data)) ws)
           | None \<Rightarrow> (w1, ws)))"

text \<open>The callback of \<open>ws.on("message")\<close>, for a handler table \<open>table\<close>.\<close>

definition dispatch ::
  "(string \<Rightarrow> 'db handler option) \<Rightarrow> 'db env \<Rightarrow> inbound \<Rightarrow>
   'db world \<times> connection \<Rightarrow> 'db world \<times> connection" where
  "dispatch table env frame state =
     (case state of (w, ws) \<Rightarrow>
      case frame of
        Unparsable error \<Rightarrow> (caught error w, ws)
      | Parsed data \<Rightarrow>
          (case content data of
             Absent \<Rightarrow> (w, ws)
           | Null \<Rightarrow> (w, ws)
           | Text text \<Rightarrow>
               if text = [] then (w, ws)
               else
                 (case truthy (steamId data) of
                    None \<Rightarrow> (emit Log_AuthenticationFailed w, ws)
                  | Some steam \<Rightarrow>
                      (case truthy (token data) of
                         None \<Rightarrow> (emit Log_AuthenticationFailed w, ws)
                       | Some tok \<Rightarrow>
                           (case authenticate env steam tok w of
                              (w1, Inl error) \<Rightarrow> (caught error w1, ws)
                            | (w1, Inr None) \<Rightarrow> (emit Log_AuthenticationFailed w1, ws)
                            | (w1, Inr (Some accepted)) \<Rightarrow> route table data text (w1, ws))))))"

definition on_message ::
  "'db env \<Rightarrow> inbound \<Rightarrow> 'db world \<times> connection \<Rightarrow> 'db world \<times> connection" where
  "on_message env = dispatch (messageHandlers env) env"

text \<open>
  The messages of a connection, one after the other: each callback runs to its
  end before the next starts. (The callbacks are \<open>async\<close> and can interleave at
  their \<open>await\<close>s; the interleavings are not modelled.)
\<close>

definition on_messages ::
  "'db env \<Rightarrow> inbound list \<Rightarrow> 'db world \<times> connection \<Rightarrow> 'db world \<times> connection" where
  "on_messages env frames state = foldl (\<lambda>s m. on_message env m s) state frames"

text \<open>The names \<open>messageHandlers[name]\<close> finds on \<open>Object.prototype\<close>.\<close>

definition inherited :: "string \<Rightarrow> bool" where
  "inherited name =
     (name \<in> {''constructor'', ''toString'', ''toLocaleString'', ''valueOf'',
               ''hasOwnProperty'', ''isPrototypeOf'', ''propertyIsEnumerable'',
               ''__lookupGetter__'', ''__lookupSetter__'', ''__defineGetter__'',
               ''__defineSetter__'', ''__proto__''})"

section \<open>Examples\<close>

definition nova :: User where
  "nova = \<lparr>user_id = 1, username = ''Nova'', xp = 0, level = 1, balance = 0, streak = 0,
            createdAt = 0, lastClaimedDaily = None\<rparr>"

definition one_player :: PlayerList where
  "one_player = addPlayer ''S1'' nova PlayerList_init"

definition example_multipliers :: "string \<rightharpoonup> real" where
  "example_multipliers = [''r1'' \<mapsto> 11 / 10, ''r2'' \<mapsto> 5 / 4, ''r3'' \<mapsto> 1]"

definition example_member :: GuildMember where
  "example_member =
     [\<lparr>role_id = ''r1'', role_name = ''Bronze''\<rparr>, \<lparr>role_id = ''r2'', role_name = ''Gold''\<rparr>,
      \<lparr>role_id = ''r3'', role_name = ''Plain''\<rparr>, \<lparr>role_id = ''r4'', role_name = ''Other''\<rparr>]"

definition plain_member :: GuildMember where
  "plain_member =
     [\<lparr>role_id = ''r3'', role_name = ''Plain''\<rparr>, \<lparr>role_id = ''r4'', role_name = ''Other''\<rparr>]"

subsection \<open>An example environment\<close>

text \<open>A store that is a list of users with their accounts; every collaborator
  answers; the token \<open>valid\<close> is the one the endpoint accepts.\<close>

type_synonym example_db = "(User \<times> Account list) list"

definition has_account :: "platform \<Rightarrow> string \<Rightarrow> User \<times> Account list \<Rightarrow> bool" where
  "has_account p pid entry = list_ex (\<lambda>a. platform a = p \<and> platformId a = pid) (snd entry)"

definition example_env :: "example_db env" where
  "example_env =
     \<lparr>fetch_token = (\<lambda>steam tok.
        Inr \<lparr>ok = (tok = ''valid''), json = Inr (Some \<lparr>auth_steamId = 0, status = ''ok''\<rparr>)\<rparr>),
      account_findUnique = (\<lambda>store p pid.
        Inr (case find (has_account p pid) store of
               None \<Rightarrow> None
             | Some (user, accounts) \<Rightarrow>
                 Some (\<lparr>platform = p, platformId = pid, account_username = username user\<rparr>,
                       Some user))),
      user_create = (\<lambda>store d.
        (Inr \<lparr>user_id = int (length store) + 1, username = create_username d,
              xp = create_xp d, level = create_level d, balance = 0, streak = 0,
              createdAt = 0, lastClaimedDaily = None\<rparr>,
         store @ [(\<lparr>user_id = int (length store) + 1, username = create_username d,
                    xp = create_xp d, level = create_level d, balance = 0, streak = 0,
                    createdAt = 0, lastClaimedDaily = None\<rparr>, create_accounts d)])),
      user_findMany = (\<lambda>store steam discord.
        Inr (filter (\<lambda>entry. has_account STEAM steam entry \<or> has_account DISCORD discord entry)
               store)),
      user_findFirst = (\<lambda>store steam.
        Inr (map_option fst
               (find (\<lambda>entry. list_ex (\<lambda>a. platformId a = steam) (snd entry)) store))),
      mergeUsers = (\<lambda>store players a b.
        (Inr \<lparr>success = True, message = ''Accounts merged.''\<rparr>, store, players)),
      Leveling_giveXP = (\<lambda>store players userId xpAmount. (Inr (Promise None), store, players)),
      users_fetch = (\<lambda>user. Inr ()),
      JSON_stringify = username\<rparr>"

definition rio :: User where
  "rio = \<lparr>user_id = 2, username = ''Rio'', xp = 120, level = 1, balance = 7, streak = 5,
           createdAt = 0, lastClaimedDaily = None\<rparr>"

definition example_store :: example_db where
  "example_store =
     [(nova, [\<lparr>platform = STEAM, platformId = ''S1'', account_username = ''Nova''\<rparr>]),
      (rio, [\<lparr>platform = DISCORD, platformId = ''D2'', account_username = ''Rio''\<rparr>])]"

definition example_world :: "example_db world" where
  "example_world =
     \<lparr>db = example_store, codes = [''4711'' \<mapsto> ''D2''], registry = PlayerList_init, trace = []\<rparr>"

definition new_connection :: connection where
  "new_connection = \<lparr>sent = [], is_open = True\<rparr>"

definition request :: "string \<Rightarrow> string \<Rightarrow> string option \<Rightarrow> WebsocketMessage" where
  "request name text correlation =
     \<lparr>type = name, steamId = Some ''S1'', token = Some ''valid'', content = Text text,
      correlationId = correlation\<rparr>"

text \<open>The same environment with a store whose \<open>findMany\<close> fails.\<close>

definition failing_env :: "example_db env" where
  "failing_env =
     example_env\<lparr>user_findMany := (\<lambda>store steam discord.
       Inl (Fault ''PrismaClientKnownRequestError'' ''Connection lost''))\<rparr>"

definition zoe :: User where
  "zoe = \<lparr>user_id = 3, username = ''Zoe'', xp = 0, level = 1, balance = 0, streak = 0,
           createdAt = 0, lastClaimedDaily = None\<rparr>"

section \<open>The registry: results\<close>

lemma allocated_init: "allocated PlayerList_init"
  by (simp add: allocated_def PlayerList_init_def)

lemma allocated_assign: "allocated r \<Longrightarrow> allocated (assign a m r)"
  by (simp add: allocated_def assign_def)

lemma allocated_addPlayer: "allocated r \<Longrightarrow> allocated (addPlayer k u r)"
  by (simp add: addPlayer_def allocated_assign)

lemma allocated_removePlayerBySteamID:
  "allocated r \<Longrightarrow> allocated (snd (removePlayerBySteamID k r))"
  by (simp add: removePlayerBySteamID_def allocated_assign)

lemma allocated_updatePlayerBySteamID:
  "allocated r \<Longrightarrow> allocated (snd (updatePlayerBySteamID k updates r))"
  by (simp add: updatePlayerBySteamID_def allocated_assign split: option.splits)

lemma allocated_removePlayerByUsername:
  "allocated r \<Longrightarrow> allocated (snd (removePlayerByUsername lower n r))"
  by (simp add: removePlayerByUsername_def allocated_assign split: option.splits prod.splits)

lemma allocated_getPlayerList: "allocated r \<Longrightarrow> allocated (snd (getPlayerList r))"
  by (simp add: getPlayerList_def allocated_def)

lemma mutate_other:
  "a \<noteq> players r \<Longrightarrow> registry_state (mutate a r op) = registry_state r"
  by (simp add: registry_state_def mutate_def assign_def deref_def)

lemma mutate_all_other:
  "a \<noteq> players r \<Longrightarrow> registry_state (mutate_all a ops r) = registry_state r"
proof (induction ops arbitrary: r)
  case Nil
  then show ?case by (simp add: mutate_all_def)
next
  case (Cons op ops)
  have same: "registry_state (mutate a r op) = registry_state r"
    using Cons.prems by (rule mutate_other)
  then have "a \<noteq> players (mutate a r op)"
    using Cons.prems by (simp add: registry_state_def)
  then have "registry_state (mutate_all a ops (mutate a r op)) = registry_state (mutate a r op)"
    by (rule Cons.IH)
  with same show ?case by (simp add: mutate_all_def)
qed

lemma getPlayerList_state:
  "allocated r \<Longrightarrow> registry_state (snd (getPlayerList r)) = registry_state r"
  by (simp add: getPlayerList_def registry_state_def deref_def allocated_def nth_append)

lemma getPlayerList_fresh:
  "allocated r \<Longrightarrow> fst (getPlayerList r) \<noteq> players (snd (getPlayerList r))"
  by (simp add: getPlayerList_def allocated_def)

text \<open>Every operation of the registry reads the store only through its own state.\<close>

lemma registry_state_map:
  assumes "registry_state r = registry_state r'"
  shows "deref r (players r) = deref r' (players r')"
proof -
  have "snd (registry_state r) = snd (registry_state r')"
    using assms by simp
  then show ?thesis
    by (simp only: registry_state_def snd_conv)
qed

lemma registry_state_players:
  assumes "registry_state r = registry_state r'"
  shows "players r = players r'"
proof -
  have "fst (registry_state r) = fst (registry_state r')"
    using assms by simp
  then show ?thesis
    by (simp only: registry_state_def fst_conv)
qed

lemma getPlayerBySteamID_state:
  "registry_state r = registry_state r' \<Longrightarrow> getPlayerBySteamID r k = getPlayerBySteamID r' k"
  by (drule registry_state_map) (simp add: getPlayerBySteamID_def)

lemma getAllPlayers_state:
  "registry_state r = registry_state r' \<Longrightarrow> getAllPlayers r = getAllPlayers r'"
  by (drule registry_state_map) (simp add: getAllPlayers_def)

lemma getPlayerByUsername_state:
  "registry_state r = registry_state r' \<Longrightarrow>
   getPlayerByUsername lower r n = getPlayerByUsername lower r' n"
  by (drule registry_state_map) (simp add: getPlayerByUsername_def)

lemma registry_state_assign:
  "allocated r \<Longrightarrow> registry_state (assign (players r) m r) = (players r, m)"
  by (simp add: registry_state_def assign_def deref_def allocated_def)

lemma addPlayer_state:
  assumes "registry_state r = registry_state r'" "allocated r" "allocated r'"
  shows "registry_state (addPlayer k u r) = registry_state (addPlayer k u r')"
proof -
  have m: "deref r (players r) = deref r' (players r')"
    using assms(1) by (rule registry_state_map)
  have p: "players r = players r'"
    using assms(1) by (rule registry_state_players)
  have "registry_state (addPlayer k u r) = (players r, Map_set k u (deref r (players r)))"
    unfolding addPlayer_def by (rule registry_state_assign [OF assms(2)])
  moreover have "registry_state (addPlayer k u r') = (players r', Map_set k u (deref r' (players r')))"
    unfolding addPlayer_def by (rule registry_state_assign [OF assms(3)])
  ultimately show ?thesis
    using m p by simp
qed

lemma removePlayerBySteamID_state:
  assumes "registry_state r = registry_state r'" "allocated r" "allocated r'"
  shows "fst (removePlayerBySteamID k r) = fst (removePlayerBySteamID k r') \<and>
         registry_state (snd (removePlayerBySteamID k r)) =
         registry_state (snd (removePlayerBySteamID k r'))"
proof -
  have m: "deref r (players r) = deref r' (players r')"
    using assms(1) by (rule registry_state_map)
  have p: "players r = players r'"
    using assms(1) by (rule registry_state_players)
  have "registry_state (snd (removePlayerBySteamID k r)) =
        (players r, Map_delete k (deref r (players r)))"
    unfolding removePlayerBySteamID_def snd_conv by (rule registry_state_assign [OF assms(2)])
  moreover have "registry_state (snd (removePlayerBySteamID k r')) =
        (players r', Map_delete k (deref r' (players r')))"
    unfolding removePlayerBySteamID_def snd_conv by (rule registry_state_assign [OF assms(3)])
  moreover have "fst (removePlayerBySteamID k r) = fst (removePlayerBySteamID k r')"
    unfolding removePlayerBySteamID_def fst_conv by (simp only: m)
  ultimately show ?thesis
    using m p by simp
qed

lemma allocated_mutate_all: "allocated r \<Longrightarrow> allocated (mutate_all a ops r)"
proof (induction ops arbitrary: r)
  case Nil
  then show ?case by (simp add: mutate_all_def)
next
  case (Cons op ops)
  have "allocated (mutate a r op)"
    using Cons.prems by (simp add: mutate_def allocated_assign)
  then have "allocated (mutate_all a ops (mutate a r op))"
    by (rule Cons.IH)
  then show ?case by (simp add: mutate_all_def)
qed

lemma getPlayerList_copies: "allocated r \<Longrightarrow>
  deref (snd (getPlayerList r)) (fst (getPlayerList r)) = deref r (players r)"
  by (simp add: getPlayerList_def deref_def)

lemma one_player_eq: "one_player = \<lparr>objects = [[(''S1'', nova)]], players = 0\<rparr>"
  by (simp add: one_player_def addPlayer_def PlayerList_init_def assign_def deref_def)

text \<open>
  C9, as the class with \<open>addPlayer\<close> has it (the class the dispatcher calls; lines
  72-191 of src/src/playerList.ts), and as the class of src/unnamed/part_000 has
  it (whose \<open>getPlayerList\<close> is the same; it adds with \<open>addPlayerBySteamID\<close>):
  \<open>getPlayerList\<close> returns a new map with the registry's entries, at an address that is not the
  registry's. Whatever the caller then does to that map (setting, overwriting and
  deleting entries, clearing it), the registry's own state is what it was, the
  getters answer as before and the modifiers lead to the same registry state as
  before.
\<close>

theorem getPlayerList_copy_mutation_safe:
  assumes "allocated r" and "getPlayerList r = (a, r1)"
  shows "a \<noteq> players r \<and> deref r1 a = deref r (players r) \<and>
         registry_state (mutate_all a ops r1) = registry_state r \<and>
         getPlayerBySteamID (mutate_all a ops r1) k = getPlayerBySteamID r k \<and>
         getAllPlayers (mutate_all a ops r1) = getAllPlayers r \<and>
         getPlayerByUsername lower (mutate_all a ops r1) n = getPlayerByUsername lower r n \<and>
         registry_state (addPlayer k u (mutate_all a ops r1)) = registry_state (addPlayer k u r) \<and>
         fst (removePlayerBySteamID k (mutate_all a ops r1)) = fst (removePlayerBySteamID k r) \<and>
         registry_state (snd (removePlayerBySteamID k (mutate_all a ops r1))) =
           registry_state (snd (removePlayerBySteamID k r))"
proof -
  have a: "a = fst (getPlayerList r)" and r1: "r1 = snd (getPlayerList r)"
    using assms(2) by simp_all
  have alloc1: "allocated r1"
    unfolding r1 using assms(1) by (rule allocated_getPlayerList)
  have state1: "registry_state r1 = registry_state r"
    unfolding r1 using assms(1) by (rule getPlayerList_state)
  have fresh: "a \<noteq> players r1"
    unfolding a r1 using assms(1) by (rule getPlayerList_fresh)
  have same_players: "players r1 = players r"
    using state1 by (rule registry_state_players)
  have copy: "deref r1 a = deref r (players r)"
    unfolding a r1 using assms(1) by (rule getPlayerList_copies)
  have state2: "registry_state (mutate_all a ops r1) = registry_state r"
    using mutate_all_other [OF fresh, of ops] state1 by simp
  have alloc2: "allocated (mutate_all a ops r1)"
    using alloc1 by (rule allocated_mutate_all)
  note rm = removePlayerBySteamID_state [OF state2 alloc2 assms(1), of k]
  show ?thesis
    using fresh same_players copy state2
      getPlayerBySteamID_state [OF state2, of k]
      getAllPlayers_state [OF state2]
      getPlayerByUsername_state [OF state2, of lower n]
      addPlayer_state [OF state2 alloc2 assms(1), of k u]
      rm
    by simp
qed

theorem getPlayerList_copy_mutation_safe_witness:
  "allocated one_player \<and> getPlayerList one_player = (1, snd (getPlayerList one_player)) \<and>
   getPlayerBySteamID
     (mutate_all 1 [Delete ''S1'', Set ''S2'' nova, Clear] (snd (getPlayerList one_player)))
     ''S1'' = Some nova \<and>
   deref (snd (getPlayerList one_player)) 1 = [(''S1'', nova)]"
proof -
  have h1: "allocated one_player"
    by (simp add: one_player_eq allocated_def)
  have h2: "getPlayerList one_player = (1, snd (getPlayerList one_player))"
    by (simp add: one_player_eq getPlayerList_def)
  have g: "getPlayerBySteamID one_player ''S1'' = Some nova"
    by (simp add: one_player_eq getPlayerBySteamID_def Map_get_def deref_def)
  have d: "deref one_player (players one_player) = [(''S1'', nova)]"
    by (simp add: one_player_eq deref_def)
  show ?thesis
    using h1 h2 g d
      getPlayerList_copy_mutation_safe [OF h1 h2,
        of "[Delete ''S1'', Set ''S2'' nova, Clear]" "''S1''"]
    by simp
qed

text \<open>
  C9 as stated, on the first class of the file (lines 44-46): its \<open>getPlayerList\<close>
  returns the registry's own map, so a caller that deletes an entry from the map
  it was given deletes the player from the registry.
\<close>

theorem getPlayerList_v1_aliases_registry:
  "getPlayerBySteamID one_player ''S1'' = Some nova \<and>
   getPlayerBySteamID
     (mutate (fst (getPlayerList_v1 one_player)) (snd (getPlayerList_v1 one_player))
        (Delete ''S1'')) ''S1'' = None \<and>
   registry_state
     (mutate (fst (getPlayerList_v1 one_player)) (snd (getPlayerList_v1 one_player))
        (Delete ''S1'')) \<noteq> registry_state one_player"
  by (simp add: one_player_eq getPlayerList_v1_def mutate_def assign_def deref_def
      getPlayerBySteamID_def Map_get_def registry_state_def)

section \<open>The role multiplier: results\<close>

lemma forEach_role_eq:
  "forEach_role rm rs (acc, h) =
     (acc @ contributing_roles rm rs,
      Max (insert h (boost_multiplier ` set (contributing_roles rm rs))))"
proof (induction rs arbitrary: acc h)
  case Nil
  then show ?case by simp
next
  case (Cons role rs)
  show ?case
  proof (cases "rm (role_id role)")
    case None
    then show ?thesis using Cons.IH by simp
  next
    case (Some m)
    show ?thesis
    proof (cases "m > 1")
      case True
      have "Max (insert (max h m) (boost_multiplier ` set (contributing_roles rm rs))) =
            Max (insert h (insert m (boost_multiplier ` set (contributing_roles rm rs))))"
        by (cases "contributing_roles rm rs = []")
          (simp_all add: max.assoc max.commute max.left_commute)
      then show ?thesis using Some True Cons.IH by simp
    next
      case False
      then show ?thesis using Some Cons.IH by simp
    qed
  qed
qed

lemma contributing_roles_boost:
  "b \<in> set (contributing_roles rm rs) \<Longrightarrow> 1 < boost_multiplier b"
  by (induction rs) (auto split: option.splits if_splits)

lemma Max_above_one:
  assumes "bs \<noteq> []" and "\<And>b. b \<in> set bs \<Longrightarrow> 1 < boost_multiplier b"
  shows "Max (insert 1 (boost_multiplier ` set bs)) = Max (boost_multiplier ` set bs)"
proof -
  obtain b where b: "b \<in> set bs"
    using assms(1) by (cases bs) auto
  have "boost_multiplier b \<le> Max (boost_multiplier ` set bs)"
    using b by simp
  then have "1 \<le> Max (boost_multiplier ` set bs)"
    using assms(2) [OF b] by simp
  moreover have "Max (insert 1 (boost_multiplier ` set bs)) = max 1 (Max (boost_multiplier ` set bs))"
    using assms(1) by (intro Max_insert) simp_all
  ultimately show ?thesis by simp
qed

lemma sort_key_descending:
  "sorted_wrt (\<lambda>a b. boost_multiplier b \<le> boost_multiplier a)
     (sort_key (\<lambda>a. - boost_multiplier a) bs)"
proof -
  have "sorted (map (\<lambda>a. - boost_multiplier a) (sort_key (\<lambda>a. - boost_multiplier a) bs))"
    by (rule sorted_sort_key)
  then show ?thesis
    by (simp add: sorted_map)
qed

text \<open>
  C7: the factor returned is the greatest factor of a contributing role (1 when
  there is none), never a sum; the roles returned are exactly the contributing
  roles, sorted descending by factor, roles of equal factor in the order of the
  role cache; with no contributing role, and for no member, the result is factor
  1 and no roles.
\<close>

theorem getMultiplierInfo_highest:
  "multiplier (getMultiplierInfo rm (Some member)) =
     (if contributing_roles rm member = [] then 1
      else Max (boost_multiplier ` set (contributing_roles rm member))) \<and>
   mset (roles (getMultiplierInfo rm (Some member))) = mset (contributing_roles rm member) \<and>
   sorted_wrt (\<lambda>a b. boost_multiplier b \<le> boost_multiplier a)
     (roles (getMultiplierInfo rm (Some member))) \<and>
   filter (\<lambda>b. boost_multiplier b = x) (roles (getMultiplierInfo rm (Some member))) =
     filter (\<lambda>b. boost_multiplier b = x) (contributing_roles rm member) \<and>
   (contributing_roles rm member = [] \<longrightarrow>
      getMultiplierInfo rm (Some member) = \<lparr>multiplier = 1, roles = []\<rparr>) \<and>
   getMultiplierInfo rm None = \<lparr>multiplier = 1, roles = []\<rparr>"
proof -
  let ?bs = "contributing_roles rm member"
  have info: "getMultiplierInfo rm (Some member) =
      \<lparr>multiplier = Max (insert 1 (boost_multiplier ` set ?bs)),
       roles = sort_key (\<lambda>a. - boost_multiplier a) ?bs\<rparr>"
    by (simp add: getMultiplierInfo_def forEach_role_eq)
  have factor: "Max (insert 1 (boost_multiplier ` set ?bs)) =
      (if ?bs = [] then 1 else Max (boost_multiplier ` set ?bs))"
    using Max_above_one [of ?bs] contributing_roles_boost [of _ rm member] by simp
  have stable: "filter (\<lambda>b. boost_multiplier b = x) (sort_key (\<lambda>a. - boost_multiplier a) ?bs) =
      filter (\<lambda>b. boost_multiplier b = x) ?bs"
    using sort_key_stable [of "\<lambda>a. - boost_multiplier a" "- x" ?bs] by simp
  have none: "getMultiplierInfo rm None = \<lparr>multiplier = 1, roles = []\<rparr>"
    by (simp add: getMultiplierInfo_def)
  show ?thesis
    unfolding info using factor stable none sort_key_descending [of ?bs] by simp
qed

theorem getMultiplierInfo_highest_witness:
  "contributing_roles example_multipliers plain_member = [] \<and>
   getMultiplierInfo example_multipliers (Some plain_member) = \<lparr>multiplier = 1, roles = []\<rparr> \<and>
   contributing_roles example_multipliers example_member =
     [\<lparr>boost_name = ''Bronze'', boost_multiplier = 11 / 10\<rparr>,
      \<lparr>boost_name = ''Gold'', boost_multiplier = 5 / 4\<rparr>] \<and>
   multiplier (getMultiplierInfo example_multipliers (Some example_member)) = 5 / 4"
proof -
  have none: "contributing_roles example_multipliers plain_member = []"
    by (simp add: example_multipliers_def plain_member_def)
  have two: "contributing_roles example_multipliers example_member =
     [\<lparr>boost_name = ''Bronze'', boost_multiplier = 11 / 10\<rparr>,
      \<lparr>boost_name = ''Gold'', boost_multiplier = 5 / 4\<rparr>]"
    by (simp add: example_multipliers_def example_member_def)
  show ?thesis
    using none two
      getMultiplierInfo_highest [of example_multipliers plain_member]
      getMultiplierInfo_highest [of example_multipliers example_member]
    by simp
qed

section \<open>The dispatch layer: results\<close>

subsection \<open>Messages that are dropped\<close>

text \<open>
  C10: a message whose content is absent, \<open>null\<close> or the empty string changes
  nothing, whatever the handler table and the collaborators are: no frame is sent,
  no request goes to the token endpoint, no handler is looked up or called, no
  line is logged, and the next messages are handled from the same state. This
  holds with an identity, a token and a correlation id present, and for a type
  that has no handler.
\<close>

theorem no_content_no_effect:
  assumes "content data = Absent \<or> content data = Null \<or> content data = Text []"
  shows "dispatch table env (Parsed data) (w, ws) = (w, ws) \<and>
         on_message env (Parsed data) (w, ws) = (w, ws) \<and>
         on_messages env (Parsed data # frames) (w, ws) = on_messages env frames (w, ws)"
proof -
  have d: "dispatch table' env (Parsed data) (w, ws) = (w, ws)"
    for table' :: "string \<Rightarrow> 'a handler option"
    using assms by (auto simp add: dispatch_def)
  show ?thesis
    by (simp add: d on_message_def on_messages_def)
qed

theorem no_content_no_effect_witness:
  "content (request ''getUser_steam'' [] (Some ''abc'')) = Text [] \<and>
   on_message example_env (Parsed (request ''getUser_steam'' [] (Some ''abc'')))
     (example_world, new_connection) = (example_world, new_connection) \<and>
   content ((request ''noSuchType'' [] (Some ''abc''))\<lparr>content := Null\<rparr>) = Null \<and>
   on_message example_env (Parsed ((request ''noSuchType'' [] (Some ''abc''))\<lparr>content := Null\<rparr>))
     (example_world, new_connection) = (example_world, new_connection) \<and>
   content ((request ''onJoin'' [] (Some ''abc''))\<lparr>content := Absent\<rparr>) = Absent \<and>
   on_message example_env (Parsed ((request ''onJoin'' [] (Some ''abc''))\<lparr>content := Absent\<rparr>))
     (example_world, new_connection) = (example_world, new_connection)"
proof -
  let ?empty = "request ''getUser_steam'' [] (Some ''abc'')"
  let ?null = "(request ''noSuchType'' [] (Some ''abc''))\<lparr>content := Null\<rparr>"
  let ?absent = "(request ''onJoin'' [] (Some ''abc''))\<lparr>content := Absent\<rparr>"
  have h1: "content ?empty = Absent \<or> content ?empty = Null \<or> content ?empty = Text []"
    by (simp add: request_def)
  have h2: "content ?null = Absent \<or> content ?null = Null \<or> content ?null = Text []"
    by simp
  have h3: "content ?absent = Absent \<or> content ?absent = Null \<or> content ?absent = Text []"
    by simp
  show ?thesis
    using no_content_no_effect [OF h1, of _ example_env example_world new_connection]
      no_content_no_effect [OF h2, of _ example_env example_world new_connection]
      no_content_no_effect [OF h3, of _ example_env example_world new_connection]
    by (simp add: request_def)
qed

text \<open>
  C5: a message with no \<open>token\<close> or no \<open>steamId\<close> is dropped, whatever the handler
  table and the collaborators are: when it has content, the one effect is the
  log line of the failed authentication; no frame is sent, with a correlation id
  or without; no request goes to the token endpoint; the store, the codes and
  the registry are what they were.
\<close>

theorem no_credentials_no_response:
  assumes "steamId data = None \<or> token data = None"
  shows "dispatch table env (Parsed data) (w, ws) =
           (if truthy_content (content data) then emit Log_AuthenticationFailed w else w, ws) \<and>
         on_message env (Parsed data) (w, ws) =
           (if truthy_content (content data) then emit Log_AuthenticationFailed w else w, ws) \<and>
         sent (snd (on_message env (Parsed data) (w, ws))) = sent ws \<and>
         db (fst (on_message env (Parsed data) (w, ws))) = db w \<and>
         codes (fst (on_message env (Parsed data) (w, ws))) = codes w \<and>
         registry (fst (on_message env (Parsed data) (w, ws))) = registry w"
proof -
  have d: "dispatch table' env (Parsed data) (w, ws) =
      (if truthy_content (content data) then emit Log_AuthenticationFailed w else w, ws)"
    for table' :: "string \<Rightarrow> 'a handler option"
    using assms
    by (cases "content data")
      (auto simp add: dispatch_def truthy_def split: option.splits)
  show ?thesis
    by (simp add: d on_message_def emit_def)
qed

theorem no_credentials_no_response_witness:
  "token ((request ''getUser_steam'' ''Nova'' (Some ''abc''))\<lparr>token := None\<rparr>) = None \<and>
   on_message example_env
     (Parsed ((request ''getUser_steam'' ''Nova'' (Some ''abc''))\<lparr>token := None\<rparr>))
     (example_world, new_connection) =
   (example_world\<lparr>trace := [Log_AuthenticationFailed]\<rparr>, new_connection) \<and>
   sent (snd (on_message example_env
     (Parsed ((request ''getUser_steam'' ''Nova'' (Some ''abc''))\<lparr>token := None\<rparr>))
     (example_world, new_connection))) = [] \<and>
   steamId ((request ''onLeave'' ''x'' (Some ''abc''))\<lparr>steamId := None\<rparr>) = None \<and>
   on_message example_env
     (Parsed ((request ''onLeave'' ''x'' (Some ''abc''))\<lparr>steamId := None\<rparr>))
     (example_world, new_connection) =
   (example_world\<lparr>trace := [Log_AuthenticationFailed]\<rparr>, new_connection)"
proof -
  let ?no_token = "(request ''getUser_steam'' ''Nova'' (Some ''abc''))\<lparr>token := None\<rparr>"
  let ?no_steamId = "(request ''onLeave'' ''x'' (Some ''abc''))\<lparr>steamId := None\<rparr>"
  have h1: "steamId ?no_token = None \<or> token ?no_token = None"
    by simp
  have h2: "steamId ?no_steamId = None \<or> token ?no_steamId = None"
    by simp
  show ?thesis
    using no_credentials_no_response [OF h1, of _ example_env example_world new_connection]
      no_credentials_no_response [OF h2, of _ example_env example_world new_connection]
    by (simp add: request_def emit_def example_world_def new_connection_def)
qed

subsection \<open>Messages that are routed\<close>

lemma messageHandlers_None:
  "messageHandlers env name = None \<longleftrightarrow> \<not> registered name \<and> \<not> inherited name"
  by (simp add: messageHandlers_def Object_prototype_def registered_def inherited_def)

lemma dispatch_authenticated:
  assumes "content data = Text text" and "text \<noteq> []"
    and "truthy (steamId data) = Some steam" and "truthy (token data) = Some tok"
    and "authenticate env steam tok w = (w1, Inr (Some accepted))"
  shows "dispatch table env (Parsed data) (w, ws) = route table data text (w1, ws)"
  using assms by (simp add: dispatch_def)

lemma route_unknown:
  assumes "type data = [] \<or> table (type data) = None"
  shows "route table data text (w1, ws) =
           (emit (Log_Unhandled (type data)) (emit (Log_Received (type data) text) w1),
            case truthy (correlationId data) of
              None \<Rightarrow> ws
            | Some correlation \<Rightarrow> ws_send (unknown_type correlation (type data)) ws)"
  using assms by (auto simp add: route_def Let_def split: option.splits)

lemma route_fault:
  assumes "type data \<noteq> []" and "table (type data) = Some handler"
    and "handler (emit (Log_Received (type data) text) w1) data = (w2, Inl error)"
  shows "route table data text (w1, ws) = (caught error w2, ws)"
  using assms by (simp add: route_def Let_def)

lemma route_result:
  assumes "type data \<noteq> []" and "table (type data) = Some handler"
    and "handler (emit (Log_Received (type data) text) w1) data = (w2, Inr result)"
  shows "route table data text (w1, ws) =
           (case truthy (correlationId data) of
              None \<Rightarrow> (w2, ws)
            | Some correlation \<Rightarrow>
                (emit (Log_SentResponse correlation (type data)) w2,
                 ws_send (response (type data) correlation result) ws))"
  using assms by (simp add: route_def Let_def split: option.splits)

text \<open>The example environment accepts the example requests.\<close>

lemma request_simps:
  "type (request name text correlation) = name"
  "content (request name text correlation) = Text text"
  "truthy (steamId (request name text correlation)) = Some ''S1''"
  "truthy (token (request name text correlation)) = Some ''valid''"
  "correlationId (request name text correlation) = correlation"
  "content_and_steamId (request name text correlation) =
     (if text = [] then None else Some (text, ''S1''))"
  by (simp_all add: request_def truthy_def content_and_steamId_def)

lemma example_authenticate:
  "authenticate example_env ''S1'' ''valid'' w =
     (emit (Fetch_token ''S1'' ''valid'') w, Inr (Some \<lparr>auth_steamId = 0, status = ''ok''\<rparr>))"
  by (simp add: authenticate_def example_env_def Let_def)

lemma failing_authenticate:
  "authenticate failing_env ''S1'' ''valid'' w =
     (emit (Fetch_token ''S1'' ''valid'') w, Inr (Some \<lparr>auth_steamId = 0, status = ''ok''\<rparr>))"
  by (simp add: authenticate_def failing_env_def example_env_def Let_def)

lemma example_on_message:
  assumes "text \<noteq> []"
  shows "on_message example_env (Parsed (request name text correlation)) (w, ws) =
           route (messageHandlers example_env) (request name text correlation) text
             (emit (Fetch_token ''S1'' ''valid'') w, ws)"
  unfolding on_message_def
  using request_simps(2) assms request_simps(3) request_simps(4) example_authenticate
  by (rule dispatch_authenticated)

lemma failing_on_message:
  assumes "text \<noteq> []"
  shows "on_message failing_env (Parsed (request name text correlation)) (w, ws) =
           route (messageHandlers failing_env) (request name text correlation) text
             (emit (Fetch_token ''S1'' ''valid'') w, ws)"
  unfolding on_message_def
  using request_simps(2) assms request_simps(3) request_simps(4) failing_authenticate
  by (rule dispatch_authenticated)

text \<open>
  C4, as the code has it: for an authenticated message with content whose type
  is found neither among the five handlers nor on \<open>Object.prototype\<close>, the
  dispatcher sends exactly the error frame when the correlation id is a
  non-empty string, and sends nothing when the correlation id is absent or
  empty.
\<close>

theorem unknown_type_error_response:
  assumes "content data = Text text" and "text \<noteq> []"
    and "truthy (steamId data) = Some steam" and "truthy (token data) = Some tok"
    and "authenticate env steam tok w = (w1, Inr (Some accepted))"
    and "\<not> registered (type data)" and "\<not> inherited (type data)"
  shows "on_message env (Parsed data) (w, ws) =
           (emit (Log_Unhandled (type data)) (emit (Log_Received (type data) text) w1),
            case correlationId data of
              None \<Rightarrow> ws
            | Some correlation \<Rightarrow>
                if correlation = [] then ws
                else ws\<lparr>sent := sent ws @
                       [[''type'' \<mapsto> JString ''error'',
                         ''correlationId'' \<mapsto> JString correlation,
                         ''success'' \<mapsto> JBoolean False,
                         ''error'' \<mapsto> JString (''Unknown message type: '' @ type data)]]\<rparr>)"
proof -
  have "messageHandlers env (type data) = None"
    using assms(6,7) by (simp add: messageHandlers_None)
  then have "route (messageHandlers env) data text (w1, ws) =
           (emit (Log_Unhandled (type data)) (emit (Log_Received (type data) text) w1),
            case truthy (correlationId data) of
              None \<Rightarrow> ws
            | Some correlation \<Rightarrow> ws_send (unknown_type correlation (type data)) ws)"
    by (intro route_unknown) simp
  then show ?thesis
    unfolding on_message_def dispatch_authenticated [OF assms(1-5)]
    by (simp add: truthy_def ws_send_def unknown_type_def split: option.splits)
qed

theorem unknown_type_error_response_witness:
  "content (request ''noSuchType'' ''x'' (Some ''abc'')) = Text ''x'' \<and>
   truthy (steamId (request ''noSuchType'' ''x'' (Some ''abc''))) = Some ''S1'' \<and>
   truthy (token (request ''noSuchType'' ''x'' (Some ''abc''))) = Some ''valid'' \<and>
   \<not> registered (type (request ''noSuchType'' ''x'' (Some ''abc''))) \<and>
   \<not> inherited (type (request ''noSuchType'' ''x'' (Some ''abc''))) \<and>
   sent (snd (on_message example_env (Parsed (request ''noSuchType'' ''x'' (Some ''abc'')))
                (example_world, new_connection))) =
     [[''type'' \<mapsto> JString ''error'', ''correlationId'' \<mapsto> JString ''abc'',
       ''success'' \<mapsto> JBoolean False,
       ''error'' \<mapsto> JString ''Unknown message type: noSuchType'']] \<and>
   sent (snd (on_message example_env (Parsed (request ''noSuchType'' ''x'' None))
                (example_world, new_connection))) = []"
proof -
  have r: "\<not> registered ''noSuchType''" "\<not> inherited ''noSuchType''"
    by (simp_all add: registered_def inherited_def)
  have n: "(''x''::string) \<noteq> []"
    by simp
  note a = unknown_type_error_response [OF request_simps(2) n request_simps(3) request_simps(4)
      example_authenticate, of "''noSuchType''" _ example_world new_connection]
  show ?thesis
    using r a [of "Some ''abc''"] a [of None]
    by (simp add: request_simps new_connection_def)
qed

text \<open>
  C4 as stated fails twice. The type \<open>hasOwnProperty\<close> has no registered handler,
  but the lookup finds \<open>Object.prototype.hasOwnProperty\<close>, calls it, and the frame
  sent is a \<open>hasOwnProperty_response\<close> with no \<open>success\<close> and no \<open>error\<close>. And a
  message that carries the empty string as its correlation id gets no frame.
\<close>

theorem unknown_type_counterexample:
  "\<not> registered ''hasOwnProperty'' \<and>
   sent (snd (on_message example_env (Parsed (request ''hasOwnProperty'' ''x'' (Some ''abc'')))
                (example_world, new_connection))) =
     [[''type'' \<mapsto> JString ''hasOwnProperty_response'', ''correlationId'' \<mapsto> JString ''abc'']] \<and>
   sent (snd (on_message example_env (Parsed (request ''hasOwnProperty'' ''x'' (Some ''abc'')))
                (example_world, new_connection))) \<noteq>
     [[''type'' \<mapsto> JString ''error'', ''correlationId'' \<mapsto> JString ''abc'',
       ''success'' \<mapsto> JBoolean False,
       ''error'' \<mapsto> JString ''Unknown message type: hasOwnProperty'']] \<and>
   \<not> registered ''noSuchType'' \<and>
   sent (snd (on_message example_env (Parsed (request ''noSuchType'' ''x'' (Some [])))
                (example_world, new_connection))) = []"
proof -
  have r: "\<not> registered ''hasOwnProperty''" "\<not> registered ''noSuchType''"
    by (simp_all add: registered_def)
  have h: "messageHandlers example_env ''hasOwnProperty'' = Some (\<lambda>w data. (w, Inr (Boolean False)))"
    by (simp add: messageHandlers_def Object_prototype_def)
  have s1: "sent (snd (on_message example_env (Parsed (request ''hasOwnProperty'' ''x'' (Some ''abc'')))
                (example_world, new_connection))) =
     [[''type'' \<mapsto> JString ''hasOwnProperty_response'', ''correlationId'' \<mapsto> JString ''abc'']]"
    by (simp add: example_on_message route_def h request_simps Let_def truthy_def
        response_def ws_send_def new_connection_def)
  have differ: "[''type'' \<mapsto> JString ''hasOwnProperty_response'', ''correlationId'' \<mapsto> JString ''abc'']
      \<noteq> [''type'' \<mapsto> JString ''error'', ''correlationId'' \<mapsto> JString ''abc'',
       ''success'' \<mapsto> JBoolean False,
       ''error'' \<mapsto> JString ''Unknown message type: hasOwnProperty'']"
  proof
    assume "[''type'' \<mapsto> JString ''hasOwnProperty_response'', ''correlationId'' \<mapsto> JString ''abc'']
      = [''type'' \<mapsto> JString ''error'', ''correlationId'' \<mapsto> JString ''abc'',
       ''success'' \<mapsto> JBoolean False,
       ''error'' \<mapsto> JString ''Unknown message type: hasOwnProperty'']"
    then have "[''type'' \<mapsto> JString ''hasOwnProperty_response'', ''correlationId'' \<mapsto> JString ''abc''] ''success''
      = [''type'' \<mapsto> JString ''error'', ''correlationId'' \<mapsto> JString ''abc'',
       ''success'' \<mapsto> JBoolean False,
       ''error'' \<mapsto> JString ''Unknown message type: hasOwnProperty''] ''success''"
      by (rule arg_cong)
    then show False by simp
  qed
  have m: "messageHandlers example_env ''noSuchType'' = None"
    by (simp add: messageHandlers_None registered_def inherited_def)
  have s2: "sent (snd (on_message example_env (Parsed (request ''noSuchType'' ''x'' (Some [])))
                (example_world, new_connection))) = []"
    by (simp add: example_on_message route_def m request_simps Let_def truthy_def
        new_connection_def)
  show ?thesis
    using r s1 s2 differ by simp
qed

lemma failing_linkCode:
  "linkCode_steam failing_env (w\<lparr>codes := [''4711'' \<mapsto> ''D2'']\<rparr>) (request name ''4711'' correlation) =
     (w\<lparr>codes := [''4711'' \<mapsto> ''D2'']\<rparr>,
      Inl (Fault ''PrismaClientKnownRequestError'' ''Connection lost''))"
  by (simp add: linkCode_steam_def request_simps CodeStorage_getUser_def failing_env_def)

text \<open>
  C1 on the code: a link request with a correlation id, from an authenticated
  identity, with a code that resolves, while the store's \<open>findMany\<close> fails.
  \<open>linkCode_steam\<close> has no \<open>try\<close>, so the fault leaves the handler; the callback's
  \<open>catch\<close> logs one line, and no frame is sent: the requester gets no
  \<open>success: false\<close>.
\<close>

theorem linkCode_steam_fault_unanswered:
  "registered ''linkCode_steam'' \<and>
   correlationId (request ''linkCode_steam'' ''4711'' (Some ''abc'')) = Some ''abc'' \<and>
   CodeStorage_getUser (codes example_world) ''4711'' = Some ''D2'' \<and>
   user_findMany failing_env (db example_world) ''S1'' ''D2'' =
     Inl (Fault ''PrismaClientKnownRequestError'' ''Connection lost'') \<and>
   snd (linkCode_steam failing_env
          (emit (Log_Received ''linkCode_steam'' ''4711'')
             (emit (Fetch_token ''S1'' ''valid'') example_world))
          (request ''linkCode_steam'' ''4711'' (Some ''abc''))) =
     Inl (Fault ''PrismaClientKnownRequestError'' ''Connection lost'') \<and>
   on_message failing_env (Parsed (request ''linkCode_steam'' ''4711'' (Some ''abc'')))
     (example_world, new_connection) =
     (example_world\<lparr>trace := [Fetch_token ''S1'' ''valid'',
         Log_Received ''linkCode_steam'' ''4711'', Log_ErrorProcessing ''Connection lost'']\<rparr>,
      new_connection) \<and>
   sent (snd (on_message failing_env (Parsed (request ''linkCode_steam'' ''4711'' (Some ''abc'')))
                (example_world, new_connection))) = []"
proof -
  let ?data = "request ''linkCode_steam'' ''4711'' (Some ''abc'')"
  let ?w1 = "emit (Fetch_token ''S1'' ''valid'') example_world"
  let ?w2 = "emit (Log_Received ''linkCode_steam'' ''4711'') ?w1"
  have m: "messageHandlers failing_env ''linkCode_steam'' = Some (linkCode_steam failing_env)"
    by (simp add: messageHandlers_def)
  have w2: "?w2 = ?w2\<lparr>codes := [''4711'' \<mapsto> ''D2'']\<rparr>"
    by (simp add: emit_def example_world_def)
  have f: "linkCode_steam failing_env ?w2 ?data =
      (?w2, Inl (Fault ''PrismaClientKnownRequestError'' ''Connection lost''))"
    by (subst w2, subst failing_linkCode) (simp add: w2 [symmetric])
  have g: "CodeStorage_getUser (codes example_world) ''4711'' = Some ''D2''"
    by (simp add: CodeStorage_getUser_def example_world_def)
  have q: "user_findMany failing_env (db example_world) ''S1'' ''D2'' =
     Inl (Fault ''PrismaClientKnownRequestError'' ''Connection lost'')"
    by (simp add: failing_env_def)
  have "on_message failing_env (Parsed ?data) (example_world, new_connection) =
      (caught (Fault ''PrismaClientKnownRequestError'' ''Connection lost'') ?w2, new_connection)"
    by (simp add: failing_on_message route_def request_simps m f Let_def)
  then show ?thesis
    using f g q
    by (simp add: registered_def request_simps new_connection_def caught_def emit_def
        example_world_def)
qed

text \<open>
  The other four handlers catch what their collaborators throw, and answer it:
  the same store fault in \<open>getUser_steam\<close> is a \<open>success: false\<close> with the fault in
  \<open>error\<close>, which the dispatcher sends as any other result.
\<close>

lemma getUser_steam_store_fault:
  assumes "content_and_steamId data = Some (name, steam)"
    and "account_findUnique env (db w) STEAM steam = Inl error"
  shows "getUser_steam env w data =
           (w, Inr (Object [''success'' \<mapsto> JBoolean False,
                            ''error'' \<mapsto> JString (''Failed to get user: '' @ error_to_string error)]))"
  using assms by (simp add: getUser_steam_def reply_error_def)

text \<open>
  A promise from \<open>Leveling.giveXP\<close> that rejects: \<open>giveXP\<close> has answered
  \<open>success: true\<close>, and the rejection is unhandled.
\<close>

lemma giveXP_rejected_promise:
  assumes "content_and_steamId data = Some (text, steam)"
    and "split_on CHR '' '' text = (userId, pieces)"
    and "Leveling_giveXP env (db w) (registry w) userId
           (case pieces of [] \<Rightarrow> None | piece # others \<Rightarrow> Some piece) =
           (Inr (Promise (Some rejection)), db', players')"
  shows "fst (giveXP env w data) =
           emit (Unhandled_rejection rejection) (w\<lparr>db := db', registry := players'\<rparr>) \<and>
         snd (giveXP env w data) =
           Inr (Object [''success'' \<mapsto> JBoolean True,
                        ''content'' \<mapsto> JString
                          (''Gave '' @ (case pieces of [] \<Rightarrow> ''undefined'' | piece # others \<Rightarrow> piece) @
                           '' XP to user '' @ userId)])"
  using assms by (simp add: giveXP_def Let_def reply_def split: list.splits)

lemma getUser_steam_catches: "snd (getUser_steam env w data) \<noteq> Inl e"
  by (simp add: getUser_steam_def split: option.splits sum.splits prod.splits)

lemma giveXP_catches: "snd (giveXP env w data) \<noteq> Inl e"
  by (simp add: giveXP_def Let_def
      split: option.splits sum.splits prod.splits returned.splits)

lemma onJoin_catches: "snd (onJoin env w data) \<noteq> Inl e"
  by (simp add: onJoin_def split: option.splits sum.splits prod.splits)

lemma onLeave_catches: "snd (onLeave env w data) \<noteq> Inl e"
  by (simp add: onLeave_def split: option.splits sum.splits prod.splits)

subsection \<open>Responses without a success flag\<close>

lemma example_onJoin:
  "onJoin example_env (w\<lparr>db := example_store\<rparr>) (request name ''x'' correlation) =
     (w\<lparr>db := example_store, registry := addPlayer ''S1'' nova (registry w)\<rparr>, Inr Undefined)"
  by (simp add: onJoin_def request_simps example_env_def example_store_def has_account_def)

text \<open>
  C6 on the code: a presence-join request with a correlation id, from an identity
  that has a profile. The player is added to the registry, the handler returns
  nothing, and the frame sent holds \<open>type\<close> and \<open>correlationId\<close> only: it has no
  \<open>success\<close>.
\<close>

theorem onJoin_response_without_success:
  "sent (snd (on_message example_env (Parsed (request ''onJoin'' ''x'' (Some ''abc'')))
                (example_world, new_connection))) =
     [[''type'' \<mapsto> JString ''onJoin_response'', ''correlationId'' \<mapsto> JString ''abc'']] \<and>
   [''type'' \<mapsto> JString ''onJoin_response'', ''correlationId'' \<mapsto> JString ''abc''] ''success'' = None \<and>
   getPlayerBySteamID
     (registry (fst (on_message example_env (Parsed (request ''onJoin'' ''x'' (Some ''abc'')))
                       (example_world, new_connection)))) ''S1'' = Some nova"
proof -
  let ?data = "request ''onJoin'' ''x'' (Some ''abc'')"
  let ?w2 = "emit (Log_Received ''onJoin'' ''x'') (emit (Fetch_token ''S1'' ''valid'') example_world)"
  have m: "messageHandlers example_env ''onJoin'' = Some (onJoin example_env)"
    by (simp add: messageHandlers_def)
  have w2: "?w2 = ?w2\<lparr>db := example_store\<rparr>"
    by (simp add: emit_def example_world_def)
  have j: "onJoin example_env ?w2 ?data =
      (?w2\<lparr>registry := addPlayer ''S1'' nova (registry ?w2)\<rparr>, Inr Undefined)"
    by (subst w2, subst example_onJoin) (simp add: emit_def example_world_def)
  have "on_message example_env (Parsed ?data) (example_world, new_connection) =
      (emit (Log_SentResponse ''abc'' ''onJoin'') (?w2\<lparr>registry := addPlayer ''S1'' nova (registry ?w2)\<rparr>),
       ws_send [''type'' \<mapsto> JString ''onJoin_response'', ''correlationId'' \<mapsto> JString ''abc'']
         new_connection)"
    by (simp add: example_on_message route_def request_simps m j Let_def truthy_def response_def)
  then show ?thesis
    by (simp add: ws_send_def new_connection_def emit_def example_world_def
        one_player_def [symmetric] one_player_eq getPlayerBySteamID_def Map_get_def deref_def)
qed

subsection \<open>The handlers\<close>

lemma content_and_steamId_None:
  "content_and_steamId data = None \<longleftrightarrow>
     \<not> truthy_content (content data) \<or> truthy (steamId data) = None"
  by (cases "content data") (auto simp add: content_and_steamId_def truthy_def split: option.splits)

lemma content_and_steamId_Some:
  "content_and_steamId data = Some (text, steam) \<longleftrightarrow>
     content data = Text text \<and> text \<noteq> [] \<and> truthy (steamId data) = Some steam"
  by (cases "content data") (auto simp add: content_and_steamId_def truthy_def split: option.splits)

lemma example_findUnique:
  "account_findUnique example_env example_store STEAM ''S1'' =
     Inr (Some (\<lparr>platform = STEAM, platformId = ''S1'', account_username = ''Nova''\<rparr>, Some nova))"
  "account_findUnique example_env example_store STEAM ''S9'' = Inr None"
  by (simp_all add: example_env_def example_store_def has_account_def nova_def)

lemma example_create:
  "user_create example_env example_store
      \<lparr>create_username = ''Zoe'',
       create_accounts = [\<lparr>platform = STEAM, platformId = ''S9'', account_username = ''Zoe''\<rparr>],
       create_xp = 0, create_level = 1\<rparr> =
     (Inr zoe,
      example_store @
        [(zoe, [\<lparr>platform = STEAM, platformId = ''S9'', account_username = ''Zoe''\<rparr>])])"
  by (simp add: example_env_def example_store_def zoe_def)

lemma example_findMany:
  "user_findMany example_env example_store ''S1'' ''D2'' =
     Inr [(nova, [\<lparr>platform = STEAM, platformId = ''S1'', account_username = ''Nova''\<rparr>]),
          (rio, [\<lparr>platform = DISCORD, platformId = ''D2'', account_username = ''Rio''\<rparr>])]"
  "user_findMany example_env example_store ''S1'' ''D9'' =
     Inr [(nova, [\<lparr>platform = STEAM, platformId = ''S1'', account_username = ''Nova''\<rparr>])]"
  by (simp_all add: example_env_def example_store_def has_account_def)

lemma example_mergeUsers:
  "mergeUsers example_env store ps a b =
     (Inr \<lparr>success = True, message = ''Accounts merged.''\<rparr>, store, ps)"
  by (simp add: example_env_def)

lemma notify_codes: "codes (notify env user w) = codes w"
  by (simp add: notify_def emit_def split: option.splits sum.splits)

lemma linkCode_steam_unknown_code:
  assumes "content_and_steamId data = Some (code, steam)"
    and "CodeStorage_getUser (codes w) code = None"
  shows "linkCode_steam env w data = invalid_code w"
  using assms by (simp add: linkCode_steam_def)

text \<open>
  C8: \<open>getUser_steam\<close>. Without content or without an identity the result is
  \<open>success: false\<close>. With both, when the store finds the Steam account and its
  user, the result is that user with \<open>success: true\<close> and the store is not
  written; when the store finds no account (or an account with no user), the
  handler asks the store to create a user with the content as name, the Steam
  account, \<open>xp\<close> 0 and \<open>level\<close> 1, and returns the user created, with
  \<open>success: true\<close>.
\<close>

theorem getUser_steam_fetch_or_create:
  "(\<not> truthy_content (content data) \<or> truthy (steamId data) = None \<longrightarrow>
      getUser_steam env w data =
        (w, Inr (Object [''success'' \<mapsto> JBoolean False,
                         ''content'' \<mapsto> JString ''Malformed content received.'']))) \<and>
   (content data = Text name \<and> name \<noteq> [] \<and> truthy (steamId data) = Some steam \<and>
    account_findUnique env (db w) STEAM steam = Inr (Some (account, Some user)) \<longrightarrow>
      getUser_steam env w data =
        (w, Inr (Object [''success'' \<mapsto> JBoolean True,
                         ''content'' \<mapsto> JString (JSON_stringify env user)]))) \<and>
   (content data = Text name \<and> name \<noteq> [] \<and> truthy (steamId data) = Some steam \<and>
    (account_findUnique env (db w) STEAM steam = Inr None \<or>
     account_findUnique env (db w) STEAM steam = Inr (Some (account, None))) \<and>
    user_create env (db w)
      \<lparr>create_username = name,
       create_accounts = [\<lparr>platform = STEAM, platformId = steam, account_username = name\<rparr>],
       create_xp = 0, create_level = 1\<rparr> = (Inr created, db') \<longrightarrow>
      getUser_steam env w data =
        (w\<lparr>db := db'\<rparr>,
         Inr (Object [''success'' \<mapsto> JBoolean True,
                      ''content'' \<mapsto> JString (JSON_stringify env created)])))"
proof (intro conjI impI)
  assume "\<not> truthy_content (content data) \<or> truthy (steamId data) = None"
  then have "content_and_steamId data = None"
    by (simp add: content_and_steamId_None)
  then show "getUser_steam env w data =
        (w, Inr (Object [''success'' \<mapsto> JBoolean False,
                         ''content'' \<mapsto> JString ''Malformed content received.'']))"
    by (simp add: getUser_steam_def malformed_def reply_def)
next
  assume a: "content data = Text name \<and> name \<noteq> [] \<and> truthy (steamId data) = Some steam \<and>
    account_findUnique env (db w) STEAM steam = Inr (Some (account, Some user))"
  then have "content_and_steamId data = Some (name, steam)"
    by (simp add: content_and_steamId_Some)
  then show "getUser_steam env w data =
        (w, Inr (Object [''success'' \<mapsto> JBoolean True,
                         ''content'' \<mapsto> JString (JSON_stringify env user)]))"
    using a by (simp add: getUser_steam_def account_user_def reply_def)
next
  assume a: "content data = Text name \<and> name \<noteq> [] \<and> truthy (steamId data) = Some steam \<and>
    (account_findUnique env (db w) STEAM steam = Inr None \<or>
     account_findUnique env (db w) STEAM steam = Inr (Some (account, None))) \<and>
    user_create env (db w)
      \<lparr>create_username = name,
       create_accounts = [\<lparr>platform = STEAM, platformId = steam, account_username = name\<rparr>],
       create_xp = 0, create_level = 1\<rparr> = (Inr created, db')"
  then have "content_and_steamId data = Some (name, steam)"
    by (simp add: content_and_steamId_Some)
  then show "getUser_steam env w data =
        (w\<lparr>db := db'\<rparr>,
         Inr (Object [''success'' \<mapsto> JBoolean True,
                      ''content'' \<mapsto> JString (JSON_stringify env created)]))"
    using a by (auto simp add: getUser_steam_def account_user_def reply_def)
qed

theorem getUser_steam_fetch_or_create_witness:
  "getUser_steam example_env example_world (request ''getUser_steam'' [] (Some ''abc'')) =
     (example_world,
      Inr (Object [''success'' \<mapsto> JBoolean False,
                   ''content'' \<mapsto> JString ''Malformed content received.''])) \<and>
   account_findUnique example_env (db example_world) STEAM ''S1'' =
     Inr (Some (\<lparr>platform = STEAM, platformId = ''S1'', account_username = ''Nova''\<rparr>, Some nova)) \<and>
   getUser_steam example_env example_world (request ''getUser_steam'' ''Nova'' (Some ''abc'')) =
     (example_world,
      Inr (Object [''success'' \<mapsto> JBoolean True,
                   ''content'' \<mapsto> JString (JSON_stringify example_env nova)])) \<and>
   account_findUnique example_env (db example_world) STEAM ''S9'' = Inr None \<and>
   getUser_steam example_env example_world
     ((request ''getUser_steam'' ''Zoe'' (Some ''abc''))\<lparr>steamId := Some ''S9''\<rparr>) =
     (example_world\<lparr>db := example_store @
        [(zoe, [\<lparr>platform = STEAM, platformId = ''S9'', account_username = ''Zoe''\<rparr>])]\<rparr>,
      Inr (Object [''success'' \<mapsto> JBoolean True,
                   ''content'' \<mapsto> JString (JSON_stringify example_env zoe)])) \<and>
   xp zoe = 0 \<and> level zoe = 1"
proof -
  have d: "db example_world = example_store"
    by (simp add: example_world_def)
  have c: "user_create example_env (db example_world)
      \<lparr>create_username = ''Zoe'',
       create_accounts = [\<lparr>platform = STEAM, platformId = ''S9'', account_username = ''Zoe''\<rparr>],
       create_xp = 0, create_level = 1\<rparr> =
     (Inr zoe,
      example_store @
        [(zoe, [\<lparr>platform = STEAM, platformId = ''S9'', account_username = ''Zoe''\<rparr>])])"
    unfolding d by (rule example_create)
  show ?thesis
    using example_findUnique [folded d] c
      getUser_steam_fetch_or_create [of "request ''getUser_steam'' [] (Some ''abc'')"
        example_env example_world]
      getUser_steam_fetch_or_create [of "request ''getUser_steam'' ''Nova'' (Some ''abc'')"
        example_env example_world "''Nova''" "''S1''"
        "\<lparr>platform = STEAM, platformId = ''S1'', account_username = ''Nova''\<rparr>" nova]
      getUser_steam_fetch_or_create [of
        "(request ''getUser_steam'' ''Zoe'' (Some ''abc''))\<lparr>steamId := Some ''S9''\<rparr>"
        example_env example_world "''Zoe''" "''S9''" _ _ zoe
        "example_store @
           [(zoe, [\<lparr>platform = STEAM, platformId = ''S9'', account_username = ''Zoe''\<rparr>])]"]
    by (simp add: request_simps truthy_def zoe_def) (simp add: request_def)
qed

text \<open>
  C3: \<open>linkCode_steam\<close>, when the code resolves to an identity and the query
  returns a number of users other than two. The result is \<open>success: false\<close> with
  the number in its text; the state is what it was but for the one console line:
  the store, the codes (the code still resolves) and the registry are unchanged
  and \<open>mergeUsers\<close> is not called.
\<close>

theorem linkCode_steam_wrong_count:
  assumes "content data = Text code" and "code \<noteq> []"
    and "truthy (steamId data) = Some steam"
    and "CodeStorage_getUser (codes w) code = Some discordId" and "discordId \<noteq> []"
    and "user_findMany env (db w) steam discordId = Inr result"
    and "length result \<noteq> 2"
  shows "linkCode_steam env w data =
           (w\<lparr>trace := trace w @
                [Console (''Cannot merge when there are more or less than 2 users in the database. Found '' @
                          string_of_nat (length result) @ '' user(s).'')]\<rparr>,
            Inr (Object [''success'' \<mapsto> JBoolean False,
                         ''content'' \<mapsto> JString
                           (''Cannot merge when there are more or less than 2 users in the database. Found '' @
                            string_of_nat (length result) @ '' user(s).'')])) \<and>
         db (fst (linkCode_steam env w data)) = db w \<and>
         codes (fst (linkCode_steam env w data)) = codes w \<and>
         registry (fst (linkCode_steam env w data)) = registry w \<and>
         CodeStorage_getUser (codes (fst (linkCode_steam env w data))) code = Some discordId \<and>
         Call_mergeUsers a b \<notin> set (trace (fst (linkCode_steam env w data))) - set (trace w)"
proof -
  have "content_and_steamId data = Some (code, steam)"
    using assms(1-3) by (simp add: content_and_steamId_Some)
  then have "linkCode_steam env w data =
           (emit (Console (cannot_merge (length result))) w,
            Inr (reply False (cannot_merge (length result))))"
    using assms(4-7) by (simp add: linkCode_steam_def)
  then show ?thesis
    using assms(4) by (simp add: emit_def reply_def cannot_merge_def)
qed

theorem linkCode_steam_wrong_count_witness:
  "content (request ''linkCode_steam'' ''9999'' (Some ''abc'')) = Text ''9999'' \<and>
   CodeStorage_getUser (codes (example_world\<lparr>codes := [''9999'' \<mapsto> ''D9'']\<rparr>)) ''9999'' = Some ''D9'' \<and>
   user_findMany example_env (db (example_world\<lparr>codes := [''9999'' \<mapsto> ''D9'']\<rparr>)) ''S1'' ''D9'' =
     Inr [(nova, [\<lparr>platform = STEAM, platformId = ''S1'', account_username = ''Nova''\<rparr>])] \<and>
   snd (linkCode_steam example_env (example_world\<lparr>codes := [''9999'' \<mapsto> ''D9'']\<rparr>)
          (request ''linkCode_steam'' ''9999'' (Some ''abc''))) =
     Inr (Object [''success'' \<mapsto> JBoolean False,
                  ''content'' \<mapsto> JString
                    ''Cannot merge when there are more or less than 2 users in the database. Found 1 user(s).'']) \<and>
   codes (fst (linkCode_steam example_env (example_world\<lparr>codes := [''9999'' \<mapsto> ''D9'']\<rparr>)
          (request ''linkCode_steam'' ''9999'' (Some ''abc'')))) ''9999'' = Some ''D9''"
proof -
  let ?w = "example_world\<lparr>codes := [''9999'' \<mapsto> ''D9'']\<rparr>"
  have n: "(''9999''::string) \<noteq> []" "(''D9''::string) \<noteq> []"
    by simp_all
  have g: "CodeStorage_getUser (codes ?w) ''9999'' = Some ''D9''"
    by (simp add: CodeStorage_getUser_def)
  have f: "user_findMany example_env (db ?w) ''S1'' ''D9'' =
     Inr [(nova, [\<lparr>platform = STEAM, platformId = ''S1'', account_username = ''Nova''\<rparr>])]"
    by (simp add: example_world_def example_findMany)
  have l: "length [(nova, [\<lparr>platform = STEAM, platformId = ''S1'', account_username = ''Nova''\<rparr>])] \<noteq> 2"
    by simp
  show ?thesis
    using g f
      linkCode_steam_wrong_count [OF request_simps(2) n(1) request_simps(3) g n(2) f l,
        of "''linkCode_steam''" "Some ''abc''"]
    by (simp add: request_simps string_of_nat.simps digit_char_def)
qed

text \<open>
  C2: \<open>linkCode_steam\<close>, when \<open>mergeUsers\<close> returns success. The handler returns
  success and has called \<open>CodeStorage.deleteCode\<close> with the identity the code
  resolved to, after which the code resolves to nothing and a second request with
  the same code is refused as an invalid code. (\<open>CodeStorage\<close> is modelled from
  the spec.)
\<close>

theorem linkCode_steam_success_invalidates:
  assumes "content data = Text code" and "code \<noteq> []"
    and "truthy (steamId data) = Some steam"
    and "CodeStorage_getUser (codes w) code = Some discordId" and "discordId \<noteq> []"
    and "user_findMany env (db w) steam discordId = Inr [result_steam, result_discord]"
    and "mergeUsers env (db w) (registry w) (user_id (fst result_steam))
           (user_id (fst result_discord)) = (Inr merged, db', players')"
    and "success merged"
  shows "snd (linkCode_steam env w data) =
           Inr (Object [''success'' \<mapsto> JBoolean True, ''content'' \<mapsto> JString (message merged)]) \<and>
         codes (fst (linkCode_steam env w data)) = CodeStorage_deleteCode discordId (codes w) \<and>
         CodeStorage_getUser (codes (fst (linkCode_steam env w data))) code = None \<and>
         (content again = Text code \<and> truthy (steamId again) = Some steam' \<longrightarrow>
            snd (linkCode_steam env (fst (linkCode_steam env w data)) again) =
              Inr (Object [''success'' \<mapsto> JBoolean False,
                           ''content'' \<mapsto> JString ''Invalid code entered.'']))"
proof -
  have cs: "content_and_steamId data = Some (code, steam)"
    using assms(1-3) by (simp add: content_and_steamId_Some)
  have r: "snd (linkCode_steam env w data) = Inr (reply True (message merged))"
    using cs assms(4-8) by (simp add: linkCode_steam_def Let_def)
  have c: "codes (fst (linkCode_steam env w data)) = CodeStorage_deleteCode discordId (codes w)"
    using cs assms(4-8) by (simp add: linkCode_steam_def Let_def notify_codes emit_def)
  have g: "CodeStorage_getUser (CodeStorage_deleteCode discordId (codes w)) code = None"
    using assms(4) by (simp add: CodeStorage_getUser_def CodeStorage_deleteCode_def)
  have again: "snd (linkCode_steam env (fst (linkCode_steam env w data)) again) =
      Inr (reply False ''Invalid code entered.'')"
    if "content again = Text code" "truthy (steamId again) = Some steam'"
  proof -
    have "content_and_steamId again = Some (code, steam')"
      using that assms(2) by (simp add: content_and_steamId_Some)
    moreover have "CodeStorage_getUser (codes (fst (linkCode_steam env w data))) code = None"
      using g by (simp only: c)
    ultimately have "linkCode_steam env (fst (linkCode_steam env w data)) again =
        invalid_code (fst (linkCode_steam env w data))"
      by (rule linkCode_steam_unknown_code)
    then show ?thesis
      by (simp add: invalid_code_def)
  qed
  show ?thesis
    using r c g again by (simp add: reply_def)
qed

theorem linkCode_steam_success_invalidates_witness:
  "content (request ''linkCode_steam'' ''4711'' (Some ''abc'')) = Text ''4711'' \<and>
   CodeStorage_getUser (codes example_world) ''4711'' = Some ''D2'' \<and>
   success \<lparr>success = True, message = ''Accounts merged.''\<rparr> \<and>
   snd (linkCode_steam example_env example_world (request ''linkCode_steam'' ''4711'' (Some ''abc''))) =
     Inr (Object [''success'' \<mapsto> JBoolean True, ''content'' \<mapsto> JString ''Accounts merged.'']) \<and>
   CodeStorage_getUser
     (codes (fst (linkCode_steam example_env example_world
                    (request ''linkCode_steam'' ''4711'' (Some ''abc''))))) ''4711'' = None \<and>
   snd (linkCode_steam example_env
          (fst (linkCode_steam example_env example_world
                  (request ''linkCode_steam'' ''4711'' (Some ''abc''))))
          (request ''linkCode_steam'' ''4711'' (Some ''xyz''))) =
     Inr (Object [''success'' \<mapsto> JBoolean False, ''content'' \<mapsto> JString ''Invalid code entered.''])"
proof -
  have n: "(''4711''::string) \<noteq> []" "(''D2''::string) \<noteq> []"
    by simp_all
  have g: "CodeStorage_getUser (codes example_world) ''4711'' = Some ''D2''"
    by (simp add: CodeStorage_getUser_def example_world_def)
  have f: "user_findMany example_env (db example_world) ''S1'' ''D2'' =
     Inr [(nova, [\<lparr>platform = STEAM, platformId = ''S1'', account_username = ''Nova''\<rparr>]),
          (rio, [\<lparr>platform = DISCORD, platformId = ''D2'', account_username = ''Rio''\<rparr>])]"
    by (simp add: example_world_def example_findMany)
  have s: "success \<lparr>success = True, message = ''Accounts merged.''\<rparr>"
    by simp
  show ?thesis
    using g s
      linkCode_steam_success_invalidates [OF request_simps(2) n(1) request_simps(3) g n(2) f
        example_mergeUsers s,
        of "''linkCode_steam''" "Some ''abc''" "request ''linkCode_steam'' ''4711'' (Some ''xyz'')" "''S1''"]
    by (simp add: request_simps CodeStorage_getUser_def CodeStorage_deleteCode_def
        example_world_def)
qed

end
